theory Spec2Isabelle
  imports Main "HOL-Library.Sublist" "HOL-Library.AList"
begin

section \<open>Python strings\<close>

text \<open>
  A Python \<^verbatim>\<open>str\<close> is a sequence of Unicode code points, so a string is a list of
  code points (\<open>nat\<close>); the keyword tables of \<^verbatim>\<open>utils/text_utils.py\<close> hold French and
  Arabic words, and \<^verbatim>\<open>in\<close> compares code points.  \<open>str\<close> turns an ASCII literal into
  its code points.
\<close>

type_synonym pystr = "nat list"

definition str :: "string \<Rightarrow> pystr" where
  "str s = map of_char s"

text \<open>\<^verbatim>\<open>needle in haystack\<close> on strings: the needle occurs as a contiguous run.\<close>

fun substr :: "'a list \<Rightarrow> 'a list \<Rightarrow> bool" where
  "substr k [] = (k = [])"
| "substr k (c # cs) = (prefix k (c # cs) \<or> substr k cs)"

text \<open>
  \<^verbatim>\<open>str.lower\<close> is Python's own, with the whole Unicode case table behind it.  The
  functions below take it as the parameter \<open>lower\<close>, so that what is proved holds for
  that table, whatever it is.  \<open>ascii_lower\<close> is its restriction to ASCII letters, which
  agrees with \<^verbatim>\<open>str.lower\<close> on every ASCII text; it is used to run the functions on
  concrete inputs.
\<close>

definition ascii_lower :: "pystr \<Rightarrow> pystr" where
  "ascii_lower s = map (\<lambda>c. if 65 \<le> c \<and> c \<le> 90 then c + 32 else c) s"

section \<open>Issue-category extraction (\<^verbatim>\<open>utils/text_utils.py\<close>)\<close>

text \<open>
  The table \<^verbatim>\<open>issue_patterns\<close> of \<^verbatim>\<open>extract_issue_type\<close>, in the order of the source:
  each entry is a category name with its keyword list.  Words with letters outside
  ASCII are spelled by their code points.
\<close>

definition billing_keywords :: "pystr list" where
  "billing_keywords =
    [str ''bill'', str ''billing'', str ''payment'', str ''charge'', str ''invoice'',
     str ''cost'', str ''price'', str ''money'', str ''pay'', str ''owed'', str ''debt'',
     str ''facture'', str ''paiement'', str ''co'' @ [251] @ str ''t'', str ''prix'',
     str ''argent'',
     [1601, 1575, 1578, 1608, 1585, 1577], [1583, 1601, 1593], [1587, 1593, 1585],
     [1605, 1575, 1604], [1578, 1603, 1604, 1601, 1577]]"

definition internet_keywords :: "pystr list" where
  "internet_keywords =
    [str ''internet'', str ''wifi'', str ''wi-fi'', str ''connection'', str ''slow'',
     str ''outage'', str ''speed'', str ''broadband'', str ''network'',
     str ''connexion'', str ''lent'', str ''panne'', str ''vitesse'',
     [1573, 1606, 1578, 1585, 1606, 1578],
     [1608, 1575, 1610] @ str '' '' @ [1601, 1575, 1610],
     [1575, 1578, 1589, 1575, 1604], [1576, 1591, 1610, 1569],
     [1587, 1585, 1593, 1577], [1588, 1576, 1603, 1577]]"

definition mobile_keywords :: "pystr list" where
  "mobile_keywords =
    [str ''phone'', str ''mobile'', str ''cell'', str ''call'', str ''text'', str ''sms'',
     str ''voicemail'', str ''signal'', str ''roaming'',
     str ''t'' @ [233] @ str ''l'' @ [233] @ str ''phone'', str ''mobile'', str ''appel'',
     str ''texto'', str ''signal'',
     [1607, 1575, 1578, 1601], [1580, 1608, 1575, 1604],
     [1605, 1603, 1575, 1604, 1605, 1577], [1585, 1587, 1575, 1604, 1577],
     [1573, 1588, 1575, 1585, 1577]]"

definition technical_keywords :: "pystr list" where
  "technical_keywords =
    [str ''technical'', str ''support'', str ''help'', str ''problem'', str ''issue'',
     str ''error'', str ''bug'', str ''fix'', str ''repair'', str ''broken'',
     str ''technique'', str ''aide'', str ''probl'' @ [232] @ str ''me'', str ''erreur'',
     str ''r'' @ [233] @ str ''parer'',
     [1578, 1602, 1606, 1610], [1605, 1587, 1575, 1593, 1583, 1577],
     [1605, 1588, 1603, 1604, 1577], [1582, 1591, 1571],
     [1573, 1589, 1604, 1575, 1581]]"

definition account_keywords :: "pystr list" where
  "account_keywords =
    [str ''account'', str ''login'', str ''password'', str ''profile'', str ''settings'',
     str ''personal'', str ''information'', str ''data'',
     str ''compte'', str ''connexion'', str ''mot de passe'', str ''profil'',
     str ''param'' @ [232] @ str ''tres'',
     [1581, 1587, 1575, 1576],
     [1578, 1587, 1580, 1610, 1604] @ str '' '' @ [1583, 1582, 1608, 1604],
     [1603, 1604, 1605, 1577] @ str '' '' @ [1605, 1585, 1608, 1585],
     [1605, 1604, 1601] @ str '' '' @ [1588, 1582, 1589, 1610],
     [1573, 1593, 1583, 1575, 1583, 1575, 1578]]"

definition service_keywords :: "pystr list" where
  "service_keywords =
    [str ''service'', str ''plan'', str ''package'', str ''subscription'', str ''upgrade'',
     str ''downgrade'', str ''change'', str ''switch'',
     str ''forfait'', str ''abonnement'', str ''am'' @ [233] @ str ''lioration'',
     [1582, 1583, 1605, 1577], [1576, 1575, 1602, 1577],
     [1575, 1588, 1578, 1585, 1575, 1603], [1578, 1585, 1602, 1610, 1577],
     [1578, 1594, 1610, 1610, 1585]]"

definition issue_patterns :: "(pystr \<times> pystr list) list" where
  "issue_patterns =
    [(str ''billing'', billing_keywords),
     (str ''internet'', internet_keywords),
     (str ''mobile'', mobile_keywords),
     (str ''technical'', technical_keywords),
     (str ''account'', account_keywords),
     (str ''service'', service_keywords)]"

text \<open>
  The inner loop: \<^verbatim>\<open>score = 0; for keyword in issue["keywords"]: if keyword in
  text_lower: score += 1\<close>.  A keyword listed twice counts twice.
\<close>

definition keyword_score :: "pystr list \<Rightarrow> pystr \<Rightarrow> nat" where
  "keyword_score keywords text_lower =
     fold (\<lambda>keyword score. if substr keyword text_lower then score + 1 else score)
       keywords 0"

text \<open>
  The outer loop fills the dict \<^verbatim>\<open>issue_scores\<close>, which keeps its keys in insertion
  order: an association list, where \<^verbatim>\<open>d[k] = v\<close> overwrites in place or appends
  (\<open>AList.update\<close>).  Only a category with a positive score gets an entry.
\<close>

definition issue_scores :: "pystr \<Rightarrow> (pystr \<times> nat) list" where
  "issue_scores text_lower =
     fold (\<lambda>issue d.
             let score = keyword_score (snd issue) text_lower
             in if score > 0 then AList.update (fst issue) score d else d)
       issue_patterns []"

text \<open>
  \<^verbatim>\<open>max(issue_scores, key=issue_scores.get)\<close> walks the keys in insertion order and
  keeps the first key of the largest value: the running best is replaced only by a
  strictly larger value.
\<close>

fun max_key :: "'k \<times> nat \<Rightarrow> ('k \<times> nat) list \<Rightarrow> 'k" where
  "max_key best [] = fst best"
| "max_key best (kv # rest) =
     (if snd best < snd kv then max_key kv rest else max_key best rest)"

definition extract_issue_type :: "(pystr \<Rightarrow> pystr) \<Rightarrow> pystr \<Rightarrow> pystr option" where
  "extract_issue_type lower input_text =
     (let text_lower = lower input_text;
          d = issue_scores text_lower
      in case d of
           [] \<Rightarrow> None
         | kv # rest \<Rightarrow> Some (max_key kv rest))"

section \<open>Voice pipeline (\<^verbatim>\<open>routes/voice.py\<close>)\<close>

subsection \<open>Values, exceptions, history items\<close>

text \<open>
  A value that reaches an f-string is a string or \<^verbatim>\<open>None\<close> (a NULL column of the
  conversations table); \<open>format\<close> is what \<^verbatim>\<open>f"{x}"\<close> prints for it.
\<close>

datatype pyval = PyStr pystr | PyNone

fun format :: "pyval \<Rightarrow> pystr" where
  "format (PyStr s) = s"
| "format PyNone = str ''None''"

datatype exn = AttributeError | KeyError | TypeError | GeneratorError | HTTPException nat

text \<open>
  A history item is duck-typed: \<^verbatim>\<open>turn.user if hasattr(turn, 'user') else
  turn.get('user', '')\<close>.  \<open>TurnObject\<close> is an object that is not a mapping, with the
  attributes it has (\<open>None\<close>: no such attribute); \<open>TurnDict\<close> is a dict, which has
  no attribute \<^verbatim>\<open>user\<close> or \<^verbatim>\<open>ai\<close> but has \<^verbatim>\<open>get\<close>.  An object without the attribute
  has no \<^verbatim>\<open>get\<close> either, and the call raises \<^verbatim>\<open>AttributeError\<close>.
\<close>

datatype history_item =
    TurnObject (attr_user: "pyval option") (attr_ai: "pyval option")
  | TurnDict "(pystr \<times> pyval) list"

fun get_user :: "history_item \<Rightarrow> exn + pyval" where
  "get_user (TurnObject u a) = (case u of Some v \<Rightarrow> Inr v | None \<Rightarrow> Inl AttributeError)"
| "get_user (TurnDict d) =
     Inr (case map_of d (str ''user'') of Some v \<Rightarrow> v | None \<Rightarrow> PyStr [])"

fun get_ai :: "history_item \<Rightarrow> exn + pyval" where
  "get_ai (TurnObject u a) = (case a of Some v \<Rightarrow> Inr v | None \<Rightarrow> Inl AttributeError)"
| "get_ai (TurnDict d) =
     Inr (case map_of d (str ''ai'') of Some v \<Rightarrow> v | None \<Rightarrow> PyStr [])"

text \<open>
  The two shapes the handlers are written for: an object that exposes both attributes
  (a validated request model), or a dict, whatever its keys.
\<close>

fun either_shape :: "history_item \<Rightarrow> bool" where
  "either_shape (TurnObject u a) = (u \<noteq> None \<and> a \<noteq> None)"
| "either_shape (TurnDict d) = True"

subsection \<open>Persisted history\<close>

text \<open>
  The conversations table, and the query both handlers run:
  \<^verbatim>\<open>SELECT user_message, ai_response FROM conversations WHERE session_id = %s
  ORDER BY timestamp ASC LIMIT 10\<close>.
  \<open>ORDER BY ... ASC\<close> sorts by ascending timestamp (rows of equal timestamp keep
  their table order here; SQL leaves their order open), and \<open>LIMIT 10\<close> keeps the first
  ten rows of the sorted result.  \<^verbatim>\<open>db\<close> is \<^verbatim>\<open>None\<close> when no store is configured
  (\<open>DbAbsent\<close>); a query that raises is caught and leaves the list empty (\<open>DbError\<close>).
\<close>

record conversation_row =
  row_session_id :: pystr
  row_timestamp :: nat
  row_user_message :: pyval
  row_ai_response :: pyval

datatype db = DbAbsent | DbError | Db "conversation_row list"

definition select_history :: "conversation_row list \<Rightarrow> pystr \<Rightarrow> conversation_row list" where
  "select_history rows session_id =
     take 10 (sort_key row_timestamp (filter (\<lambda>r. row_session_id r = session_id) rows))"

definition load_history :: "db \<Rightarrow> pystr \<Rightarrow> history_item list" where
  "load_history database session_id =
     (case database of
        Db rows \<Rightarrow>
          map (\<lambda>row. TurnDict [(str ''user'', row_user_message row),
                          (str ''ai'', row_ai_response row)])
            (select_history rows session_id)
      | _ \<Rightarrow> [])"

subsection \<open>Building the context\<close>

text \<open>The slice \<^verbatim>\<open>history_to_use[-10:]\<close>: the last ten items, or all when there are fewer.\<close>

definition last10 :: "'a list \<Rightarrow> 'a list" where
  "last10 xs = drop (length xs - 10) xs"

text \<open>
  The loop \<^verbatim>\<open>for turn in history_to_use[-10:]\<close>, appending
  \<^verbatim>\<open>f"User: {user_msg}\nAI: {ai_msg}\n"\<close> to the context built so far.  Code point 10
  is the newline.
\<close>

fun add_turns :: "history_item list \<Rightarrow> pystr \<Rightarrow> exn + pystr" where
  "add_turns [] conversation_context = Inr conversation_context"
| "add_turns (turn # turns) conversation_context =
     (case get_user turn of
        Inl e \<Rightarrow> Inl e
      | Inr user_msg \<Rightarrow>
          (case get_ai turn of
             Inl e \<Rightarrow> Inl e
           | Inr ai_msg \<Rightarrow>
               add_turns turns
                 (conversation_context @ str ''User: '' @ format user_msg @ [10]
                    @ str ''AI: '' @ format ai_msg @ [10])))"

definition build_context :: "history_item list \<Rightarrow> pystr \<Rightarrow> exn + pystr" where
  "build_context history_to_use transcription =
     (if history_to_use \<noteq> [] then
        (case add_turns (last10 history_to_use) (str ''Previous conversation:'' @ [10]) of
           Inl e \<Rightarrow> Inl e
         | Inr conversation_context \<Rightarrow>
             Inr (conversation_context @ [10] @ str ''Current user message: ''
                    @ transcription @ [10]))
      else Inr transcription)"


subsection \<open>What a turn contributes\<close>

text \<open>
  The contribution of a turn, said without the loop and without exceptions, for
  comparison with the builder: the field an item holds under a name (an attribute of
  an object, a key of a dict), the text a field gives (its printed value, and the empty
  string where the item has no such field), the two labelled lines of a turn, and the
  context they make up.
\<close>

definition user_field :: "history_item \<Rightarrow> pyval option" where
  "user_field item =
     (case item of TurnObject u a \<Rightarrow> u | TurnDict d \<Rightarrow> map_of d (str ''user''))"

definition ai_field :: "history_item \<Rightarrow> pyval option" where
  "ai_field item =
     (case item of TurnObject u a \<Rightarrow> a | TurnDict d \<Rightarrow> map_of d (str ''ai''))"

definition field_text :: "pyval option \<Rightarrow> pystr" where
  "field_text field = (case field of Some v \<Rightarrow> format v | None \<Rightarrow> [])"

definition turn_lines :: "history_item \<Rightarrow> pystr" where
  "turn_lines item =
     str ''User: '' @ field_text (user_field item) @ [10]
       @ str ''AI: '' @ field_text (ai_field item) @ [10]"

definition context_of_turns :: "history_item list \<Rightarrow> pystr \<Rightarrow> pystr" where
  "context_of_turns turns message =
     str ''Previous conversation:'' @ [10] @ concat (map turn_lines turns)
       @ [10] @ str ''Current user message: '' @ message @ [10]"
subsection \<open>Requests and collaborators\<close>

text \<open>
  Modelled from the spec: the request models of \<^verbatim>\<open>models.py\<close> are not part of the
  sources.  A request carries the latest message, the session key (caller-supplied or
  generated if absent), the language, the persona and the client-supplied history;
  the fields are named as the handlers read them.
\<close>

record TranscriptionRequest =
  transcription :: pystr
  sessionId :: "pystr option"
  req_language :: pystr
  assistantId :: "int option"
  history :: "history_item list option"

record user =
  user_id :: int
  email :: pystr

text \<open>
  What a handler gets from outside: the store, the id \<^verbatim>\<open>uuid.uuid4()\<close> would give, the
  generator \<^verbatim>\<open>rag_system.get_response\<close> (a reply, or an exception), the ticketing call
  \<^verbatim>\<open>create_trello_card\<close> (a URL, or \<^verbatim>\<open>None\<close>) and \<^verbatim>\<open>str.lower\<close>.
\<close>

record voice_env =
  database :: db
  uuid4 :: pystr
  get_response :: "pystr \<Rightarrow> pystr \<Rightarrow> pystr \<Rightarrow> exn + pystr"
  create_trello_card :: "pystr \<Rightarrow> pystr \<Rightarrow> pystr option"
  str_lower :: "pystr \<Rightarrow> pystr"

text \<open>The calls a turn makes to the generator and to ticketing, in order.\<close>

datatype external_call =
    GetResponse pystr pystr pystr
  | CreateTrelloCard pystr pystr

record voice_response =
  resp_transcription :: pystr
  aiResponse :: pystr
  resp_sessionId :: pystr

text \<open>\<^verbatim>\<open>request.sessionId or str(uuid.uuid4())\<close>: an empty id counts as absent.\<close>

definition session_id_of :: "voice_env \<Rightarrow> TranscriptionRequest \<Rightarrow> pystr" where
  "session_id_of env request =
     (case sessionId request of
        Some s \<Rightarrow> if s \<noteq> [] then s else uuid4 env
      | None \<Rightarrow> uuid4 env)"

definition assistant_name_of :: "int option \<Rightarrow> pystr" where
  "assistant_name_of aid = (if aid = Some 1 then str ''Slah'' else str ''Amira'')"

text \<open>
  \<^verbatim>\<open>request.history if request.history else conversation_history_list\<close>: a missing or
  empty client history falls back to the rows loaded from the store.
\<close>

definition history_to_use :: "voice_env \<Rightarrow> TranscriptionRequest \<Rightarrow> history_item list" where
  "history_to_use env request =
     (case history request of
        Some h \<Rightarrow> if h \<noteq> [] then h else load_history (database env) (session_id_of env request)
      | None \<Rightarrow> load_history (database env) (session_id_of env request))"

definition conversation_context :: "voice_env \<Rightarrow> TranscriptionRequest \<Rightarrow> exn + pystr" where
  "conversation_context env request =
     build_context (history_to_use env request) (transcription request)"

subsection \<open>The two handlers\<close>

text \<open>
  Both handlers are modelled up to the reply they return: the result is the response
  (or the \<^verbatim>\<open>HTTPException(500)\<close> the outer \<^verbatim>\<open>except\<close> raises) together with the calls
  made to the generator and to ticketing.  What follows the reply in the source does
  not change \<^verbatim>\<open>aiResponse\<close> and is left out: saving the turn and reading the history
  back sit in \<^verbatim>\<open>try\<close> blocks of their own, and the audio jobs are only scheduled
  (their voice lookup takes the entry \<^verbatim>\<open>VOICE_CONFIG["Amira"]["en-US"]\<close> of \<^verbatim>\<open>config.py\<close>
  for granted).  The name and issue annotations of the response are left out as well.
\<close>

definition ticket_phrases :: "pystr list" where
  "ticket_phrases =
     [str ''open a ticket'', str ''open the ticket'', str ''create a ticket'',
      str ''raise a ticket'', str ''submit a ticket'']"

text \<open>
  In the handlers, \<^verbatim>\<open>if ticket_url:\<close> holds for a URL that is neither \<^verbatim>\<open>None\<close> nor
  empty, and \<^verbatim>\<open>not ai_response\<close> for an empty reply.
\<close>

definition ticket_title :: "pystr \<Rightarrow> pystr \<Rightarrow> user option \<Rightarrow> pystr" where
  "ticket_title tag assistant_name current_user =
     tag @ str '' '' @ assistant_name @ str '' - ''
       @ (case current_user of Some u \<Rightarrow> email u | None \<Rightarrow> str ''guest'')"

text \<open>
  The triple-quoted description: a newline, then four lines indented as in the source
  (\<open>indent\<close> spaces, code point 32), and the indentation of the closing quotes.
\<close>

definition ticket_description ::
  "nat \<Rightarrow> pystr \<Rightarrow> pystr \<Rightarrow> pystr \<Rightarrow> pystr \<Rightarrow> pystr" where
  "ticket_description indent headline session_id language_code message =
     [10] @ replicate indent 32 @ headline
     @ [10] @ replicate indent 32 @ str ''Session: '' @ session_id
     @ [10] @ replicate indent 32 @ str ''Language: '' @ language_code
     @ [10] @ replicate indent 32 @ str ''Message: '' @ message
     @ [10] @ replicate indent 32"

definition process_voice_with_auth ::
  "voice_env \<Rightarrow> TranscriptionRequest \<Rightarrow> user option
     \<Rightarrow> (exn + voice_response) \<times> external_call list" where
  "process_voice_with_auth env request current_user =
     (let session_id = session_id_of env request;
          assistant_name = assistant_name_of (assistantId request)
      in case conversation_context env request of
           Inl e \<Rightarrow> (Inl (HTTPException 500), [])
         | Inr context \<Rightarrow>
             (let transcription_lower = str_lower env (transcription request) in
              if list_ex (\<lambda>phrase. substr phrase transcription_lower) ticket_phrases then
                (let title = ticket_title (str ''[MANUAL]'') assistant_name current_user;
                     description =
                       ticket_description 16 (str ''User explicitly asked to open a ticket.'')
                         session_id (req_language request) (transcription request);
                     ticket_url = create_trello_card env title description;
                     ai_response =
                       (case ticket_url of
                          Some url \<Rightarrow>
                            if url \<noteq> [] then str ''A support ticket has been created: '' @ url
                            else str ''I'll create a support ticket for you right away.''
                        | None \<Rightarrow> str ''I'll create a support ticket for you right away.'')
                 in (Inr \<lparr>resp_transcription = transcription request,
                          aiResponse = ai_response, resp_sessionId = session_id\<rparr>,
                     [CreateTrelloCard title description]))
              else
                (case get_response env context (req_language request) assistant_name of
                   Inl e \<Rightarrow>
                     (Inl (HTTPException 500),
                      [GetResponse context (req_language request) assistant_name])
                 | Inr ai_response \<Rightarrow>
                     if ai_response = []
                        \<or> substr (str ''technical difficulties'') (str_lower env ai_response)
                     then
                       (let title =
                              ticket_title (str ''[AUTO-FALLBACK]'') assistant_name current_user;
                            description =
                              ticket_description 20 (str ''AI failed to respond properly.'')
                                session_id (req_language request) (transcription request);
                            ticket_url = create_trello_card env title description;
                            ai_response' =
                              (case ticket_url of
                                 Some url \<Rightarrow>
                                   if url \<noteq> []
                                   then str ''I'm having technical issues. A support ticket was created: ''
                                          @ url
                                   else ai_response
                               | None \<Rightarrow> ai_response)
                        in (Inr \<lparr>resp_transcription = transcription request,
                                 aiResponse = ai_response', resp_sessionId = session_id\<rparr>,
                            [GetResponse context (req_language request) assistant_name,
                             CreateTrelloCard title description]))
                     else
                       (Inr \<lparr>resp_transcription = transcription request,
                             aiResponse = ai_response, resp_sessionId = session_id\<rparr>,
                        [GetResponse context (req_language request) assistant_name]))))"

definition process_voice ::
  "voice_env \<Rightarrow> TranscriptionRequest \<Rightarrow> (exn + voice_response) \<times> external_call list" where
  "process_voice env request =
     (let session_id = session_id_of env request;
          assistant_name = assistant_name_of (assistantId request)
      in case conversation_context env request of
           Inl e \<Rightarrow> (Inl (HTTPException 500), [])
         | Inr context \<Rightarrow>
             (case get_response env context (req_language request) assistant_name of
                Inl e \<Rightarrow>
                  (Inl (HTTPException 500),
                   [GetResponse context (req_language request) assistant_name])
              | Inr ai_response \<Rightarrow>
                  (Inr \<lparr>resp_transcription = transcription request,
                        aiResponse = ai_response, resp_sessionId = session_id\<rparr>,
                   [GetResponse context (req_language request) assistant_name])))"

section \<open>Call sessions (\<^verbatim>\<open>utils/session_utils.py\<close>)\<close>

text \<open>
  Modelled from the spec: \<^verbatim>\<open>models.CallSession\<close> and \<^verbatim>\<open>models.CallerInfo\<close> are not part
  of the sources.  The spec's data model gives a session its identity, language,
  persona and optional caller, and a caller \<^verbatim>\<open>is_registered\<close>, \<^verbatim>\<open>full_name\<close> and
  \<^verbatim>\<open>user_id\<close>; the records hold the constructor's two arguments and the attributes the
  handlers read and assign.
\<close>

record CallerInfo =
  is_registered :: bool
  full_name :: "pystr option"
  caller_user_id :: "int option"

record CallSession =
  call_sid :: pystr
  caller_phone :: pystr
  language :: pystr
  assistant_id :: int
  caller_info :: "CallerInfo option"

text \<open>
  A session is a mutable object that the dict \<^verbatim>\<open>call_sessions\<close> and a handler's local
  variable both refer to: the handler assigns \<^verbatim>\<open>session.language\<close> and the dict sees
  it.  So objects live in a heap, a reference is an index into it, a new object is
  appended, and \<^verbatim>\<open>call_sessions\<close> maps a CallSid to a reference.  Deleting a key
  drops the reference and leaves the heap alone.
\<close>

record world =
  heap :: "CallSession list"
  call_sessions :: "pystr \<rightharpoonup> nat"

definition empty_world :: world where
  "empty_world = \<lparr>heap = [], call_sessions = Map.empty\<rparr>"

text \<open>Every reference the dict holds points into the heap.\<close>

definition wf_world :: "world \<Rightarrow> bool" where
  "wf_world w = (\<forall>k r. call_sessions w k = Some r \<longrightarrow> r < length (heap w))"

text \<open>
  What the Twilio routes import from outside the sources: whether the \<^verbatim>\<open>twilio\<close>
  package could be imported (\<^verbatim>\<open>VoiceResponse\<close> is not \<^verbatim>\<open>None\<close>), the two menus of
  \<^verbatim>\<open>config.py\<close> as dicts in insertion order (association lists, read with \<open>map_of\<close>),
  the constructor \<^verbatim>\<open>CallSession(call_sid, caller_phone)\<close>, the caller lookup and the
  generator.
\<close>

record lang_config =
  code :: pystr
  name :: pystr
  voice :: pystr

record assistant_config =
  a_id :: int
  a_name :: pystr
  a_type :: pystr

record twilio_env =
  VoiceResponse :: bool
  LANGUAGE_CONFIG :: "(pystr \<times> lang_config) list"
  ASSISTANT_CONFIG :: "(pystr \<times> assistant_config) list"
  new_CallSession :: "pystr \<Rightarrow> pystr \<Rightarrow> CallSession"
  identify_caller_by_phone :: "pystr \<Rightarrow> CallerInfo"
  rag_get_response :: "pystr \<Rightarrow> pystr \<Rightarrow> pystr \<Rightarrow> exn + pystr"

text \<open>
  \<^verbatim>\<open>if call_sid not in call_sessions: call_sessions[call_sid] = CallSession(call_sid,
  caller_phone)\<close>, then \<^verbatim>\<open>return call_sessions[call_sid]\<close>: the reference found, or
  the reference of the object just made.
\<close>

definition get_or_create_call_session ::
  "twilio_env \<Rightarrow> world \<Rightarrow> pystr \<Rightarrow> pystr \<Rightarrow> world \<times> nat" where
  "get_or_create_call_session env w sid phone =
     (case call_sessions w sid of
        Some r \<Rightarrow> (w, r)
      | None \<Rightarrow>
          (w\<lparr>heap := heap w @ [new_CallSession env sid phone],
              call_sessions := (call_sessions w)(sid \<mapsto> length (heap w))\<rparr>,
           length (heap w)))"

text \<open>
  An attribute assignment through a reference.  References come from the dict, so
  they are in range (\<open>wf_world\<close>).
\<close>

definition assign :: "world \<Rightarrow> nat \<Rightarrow> (CallSession \<Rightarrow> CallSession) \<Rightarrow> world" where
  "assign w r f = w\<lparr>heap := (heap w)[r := f (heap w ! r)]\<rparr>"

text \<open>
  \<^verbatim>\<open>handle_status_callback\<close>: a terminal status deletes the key, if it is there.  The
  handler does not test \<^verbatim>\<open>VoiceResponse\<close> and returns a plain status object.
\<close>

definition terminal_statuses :: "pystr list" where
  "terminal_statuses =
     [str ''completed'', str ''failed'', str ''busy'', str ''no-answer'', str ''canceled'']"

definition handle_status_callback :: "world \<Rightarrow> pystr \<Rightarrow> pystr \<Rightarrow> world" where
  "handle_status_callback w sid CallStatus =
     (if CallStatus \<in> set terminal_statuses then
        (if call_sessions w sid \<noteq> None
         then w\<lparr>call_sessions := (call_sessions w)(sid := None)\<rparr>
         else w)
      else w)"

section \<open>Twilio routes (\<^verbatim>\<open>routes/twilio.py\<close>)\<close>

subsection \<open>TwiML\<close>

text \<open>
  A handler answers with a TwiML document: the verbs appended to the
  \<^verbatim>\<open>VoiceResponse\<close>, in order.  \<open>Say text voice\<close>; \<open>Gather\<close> with its attributes and
  the prompts said inside it; \<open>Redirect url\<close>; \<open>Hangup\<close>.
\<close>

record gather_attrs =
  g_input :: "pystr option"
  num_digits :: "nat option"
  action :: pystr
  g_method :: pystr
  timeout :: nat
  speech_timeout :: "pystr option"
  g_language :: "pystr option"

datatype verb =
    Say pystr pystr
  | Gather gather_attrs "(pystr \<times> pystr) list"
  | Redirect pystr
  | Hangup

definition gather_digit :: "pystr \<Rightarrow> gather_attrs" where
  "gather_digit url =
     \<lparr>g_input = None, num_digits = Some 1, action = url, g_method = str ''POST'',
      timeout = 5, speech_timeout = None, g_language = None\<rparr>"

definition gather_speech :: "pystr \<Rightarrow> gather_attrs" where
  "gather_speech session_language =
     \<lparr>g_input = Some (str ''speech''), num_digits = None,
      action = str ''/api/twilio/process-speech'', g_method = str ''POST'',
      timeout = 5, speech_timeout = Some (str ''auto''),
      g_language = Some session_language\<rparr>"

subsection \<open>Handlers\<close>

text \<open>
  A handler takes the world and the form fields and returns the world it leaves
  behind with either the document or the exception raised.  A form field that was not
  posted is \<open>None\<close> and takes the default of its \<^verbatim>\<open>Form(default=...)\<close>.
\<close>

text \<open>
  \<^verbatim>\<open>session = call_sessions.get(CallSid)\<close>, and when there is none,
  \<^verbatim>\<open>get_or_create_call_session(CallSid, "unknown")\<close> followed by the assignments the
  handler makes to the fresh session.
\<close>

definition session_or_new ::
  "twilio_env \<Rightarrow> world \<Rightarrow> pystr \<Rightarrow> (CallSession \<Rightarrow> CallSession) \<Rightarrow> world \<times> nat" where
  "session_or_new env w sid defaults =
     (case call_sessions w sid of
        Some r \<Rightarrow> (w, r)
      | None \<Rightarrow>
          (let (w1, r) = get_or_create_call_session env w sid (str ''unknown'')
           in (assign w1 r defaults, r)))"

text \<open>
  The loop \<^verbatim>\<open>for key, config in LANGUAGE_CONFIG.items(): if config["code"] ==
  session.language: lang_config = config; break\<close> over a starting value that may be
  \<^verbatim>\<open>None\<close> (\<^verbatim>\<open>LANGUAGE_CONFIG.get("1")\<close>).
\<close>

definition config_for_language ::
  "(pystr \<times> lang_config) list \<Rightarrow> pystr \<Rightarrow> lang_config option \<Rightarrow> lang_config option" where
  "config_for_language items session_language start =
     (case find (\<lambda>item. code (snd item) = session_language) items of
        Some item \<Rightarrow> Some (snd item)
      | None \<Rightarrow> start)"

definition handle_incoming_call ::
  "twilio_env \<Rightarrow> world \<Rightarrow> pystr \<Rightarrow> pystr \<Rightarrow> world \<times> (exn + verb list)" where
  "handle_incoming_call env w sid From =
     (if \<not> VoiceResponse env then (w, Inl (HTTPException 500))
      else
        (let (w1, session) = get_or_create_call_session env w sid From;
             info = identify_caller_by_phone env From;
             w2 = assign w1 session (\<lambda>s. s\<lparr>caller_info := Some info\<rparr>);
             greeting =
               (case full_name info of
                  Some n \<Rightarrow>
                    if is_registered info \<and> n \<noteq> []
                    then str ''Hello '' @ n @ str ''! Welcome back to Ooredoo.''
                    else str ''Hello! Welcome to Ooredoo AI Assistant.''
                | None \<Rightarrow> str ''Hello! Welcome to Ooredoo AI Assistant.'')
         in (w2,
             Inr [Say greeting (str ''alice''),
                  Gather (gather_digit (str ''/api/twilio/language-selection''))
                    [(str ''Press 1 for English. Press 2 for Arabic. Press 3 for French.'',
                      str ''alice'')],
                  Redirect (str ''/api/twilio/language-selection?Digits=1'')])))"

text \<open>
  \<^verbatim>\<open>LANGUAGE_CONFIG.get(Digits, LANGUAGE_CONFIG["1"])\<close> evaluates its default first:
  a table without the key \<^verbatim>\<open>"1"\<close> raises \<^verbatim>\<open>KeyError\<close> whatever the digit.
\<close>

definition handle_language_selection ::
  "twilio_env \<Rightarrow> world \<Rightarrow> pystr \<Rightarrow> pystr option \<Rightarrow> world \<times> (exn + verb list)" where
  "handle_language_selection env w sid Digits =
     (if \<not> VoiceResponse env then (w, Inl (HTTPException 500))
      else
        (let digits = (case Digits of Some d \<Rightarrow> d | None \<Rightarrow> str ''1'');
             (w1, session) = session_or_new env w sid (\<lambda>s. s)
         in case map_of (LANGUAGE_CONFIG env) (str ''1'') of
              None \<Rightarrow> (w1, Inl KeyError)
            | Some fallback \<Rightarrow>
                (let lang =
                       (case map_of (LANGUAGE_CONFIG env) digits of
                          Some c \<Rightarrow> c
                        | None \<Rightarrow> fallback);
                     w2 = assign w1 session (\<lambda>s. s\<lparr>language := code lang\<rparr>)
                 in (w2,
                     Inr [Say (str ''You selected '' @ name lang @ str ''.'') (voice lang),
                          Gather (gather_digit (str ''/api/twilio/assistant-selection''))
                            [(str ''Press 1 for Slah, our B2B Enterprise Assistant. Press 2 for Amira, our B2C Customer Assistant.'',
                              voice lang)],
                          Redirect (str ''/api/twilio/assistant-selection?Digits=2'')]))))"

definition handle_assistant_selection ::
  "twilio_env \<Rightarrow> world \<Rightarrow> pystr \<Rightarrow> pystr option \<Rightarrow> world \<times> (exn + verb list)" where
  "handle_assistant_selection env w sid Digits =
     (if \<not> VoiceResponse env then (w, Inl (HTTPException 500))
      else
        (let digits = (case Digits of Some d \<Rightarrow> d | None \<Rightarrow> str ''2'');
             (w1, session) = session_or_new env w sid (\<lambda>s. s\<lparr>language := str ''en-US''\<rparr>)
         in case map_of (ASSISTANT_CONFIG env) (str ''2'') of
              None \<Rightarrow> (w1, Inl KeyError)
            | Some fallback \<Rightarrow>
                (let assistant =
                       (case map_of (ASSISTANT_CONFIG env) digits of
                          Some c \<Rightarrow> c
                        | None \<Rightarrow> fallback);
                     w2 = assign w1 session (\<lambda>s. s\<lparr>assistant_id := a_id assistant\<rparr>);
                     session_language = language (heap w2 ! session)
                 in case map_of (LANGUAGE_CONFIG env) (str ''1'') of
                      None \<Rightarrow> (w2, Inl KeyError)
                    | Some english \<Rightarrow>
                        (case config_for_language (LANGUAGE_CONFIG env) session_language
                                (Some english) of
                           None \<Rightarrow> (w2, Inl TypeError)
                         | Some lang \<Rightarrow>
                             (w2,
                              Inr [Say (str ''You're now connected with '' @ a_name assistant
                                          @ str ''. How can I help you today?'') (voice lang),
                                   Gather (gather_speech session_language) [],
                                   Say (str ''I didn't hear anything. Please try again.'')
                                     (voice lang),
                                   Redirect (str ''/api/twilio/start-conversation'')])))))"

text \<open>
  In the next two handlers the starting value is \<^verbatim>\<open>LANGUAGE_CONFIG.get("1")\<close>, which
  is \<^verbatim>\<open>None\<close> for a table without that key; \<^verbatim>\<open>lang_config["voice"]\<close> then raises
  \<^verbatim>\<open>TypeError\<close>.
\<close>

definition start_conversation ::
  "twilio_env \<Rightarrow> world \<Rightarrow> pystr \<Rightarrow> world \<times> (exn + verb list)" where
  "start_conversation env w sid =
     (if \<not> VoiceResponse env then (w, Inl (HTTPException 500))
      else
        (let (w1, session) =
               session_or_new env w sid
                 (\<lambda>s. s\<lparr>language := str ''en-US'', assistant_id := 2\<rparr>);
             session_language = language (heap w1 ! session)
         in case config_for_language (LANGUAGE_CONFIG env) session_language
                   (map_of (LANGUAGE_CONFIG env) (str ''1'')) of
              None \<Rightarrow> (w1, Inl TypeError)
            | Some lang \<Rightarrow>
                (w1,
                 Inr [Gather (gather_speech session_language) [],
                      Say (str ''I didn't hear anything. Goodbye!'') (voice lang),
                      Hangup])))"

text \<open>
  \<^verbatim>\<open>process_speech\<close>.  Saving the turn sits in a \<^verbatim>\<open>try\<close> of its own and changes
  nothing in the document; it is left out.  An exception of the generator is caught
  and answered with an apology and a hangup.
\<close>

definition process_speech ::
  "twilio_env \<Rightarrow> world \<Rightarrow> pystr \<Rightarrow> pystr option \<Rightarrow> world \<times> (exn + verb list)" where
  "process_speech env w sid SpeechResult =
     (if \<not> VoiceResponse env then (w, Inl (HTTPException 500))
      else
        (let speech = (case SpeechResult of Some s \<Rightarrow> s | None \<Rightarrow> []);
             (w1, session) =
               session_or_new env w sid
                 (\<lambda>s. s\<lparr>language := str ''en-US'', assistant_id := 2\<rparr>);
             session_language = language (heap w1 ! session);
             assistant_name =
               (if assistant_id (heap w1 ! session) = 1 then str ''Slah'' else str ''Amira'')
         in case config_for_language (LANGUAGE_CONFIG env) session_language
                   (map_of (LANGUAGE_CONFIG env) (str ''1'')) of
              None \<Rightarrow> (w1, Inl TypeError)
            | Some lang \<Rightarrow>
                if speech = [] then
                  (w1,
                   Inr [Say (str ''I didn't hear anything. Please try again.'') (voice lang),
                        Redirect (str ''/api/twilio/start-conversation'')])
                else
                  (case rag_get_response env speech session_language assistant_name of
                     Inl e \<Rightarrow>
                       (w1,
                        Inr [Say (str ''I'm having technical difficulties. Please try again later.'')
                               (voice lang),
                             Hangup])
                   | Inr reply \<Rightarrow>
                       (w1,
                        Inr [Say reply (voice lang),
                             Gather (gather_speech session_language)
                               [(str ''Is there anything else I can help you with?'',
                                 voice lang)],
                             Say (str ''Thank you for calling Ooredoo. Goodbye!'') (voice lang),
                             Hangup]))))"

subsection \<open>The call flow\<close>

text \<open>
  How Twilio runs a document, as far as the routes rely on it.  \<open>Say\<close> speaks and goes
  on.  \<open>Gather\<close> says its prompts and waits for the caller: on input it posts the
  input to the gather's \<^verbatim>\<open>action\<close> (\<^verbatim>\<open>Digits\<close> or \<^verbatim>\<open>SpeechResult\<close>) and leaves the
  document; when the wait times out it goes on with the next verb.  \<open>Redirect\<close> posts
  to its URL with no input field and leaves the document.  \<open>Hangup\<close>, or the end of
  the document, ends the call.  \<open>Spoke []\<close> is an empty speech result posted to the
  action, the case \<^verbatim>\<open>if not SpeechResult\<close> of \<^verbatim>\<open>process_speech\<close> answers.
\<close>

datatype caller_input = Pressed pystr | Spoke pystr | Silence

record form =
  Digits_field :: "pystr option"
  SpeechResult_field :: "pystr option"

datatype play_result =
    Requests pystr form "caller_input list"
  | Ends
  | Awaits

fun play :: "verb list \<Rightarrow> caller_input list \<Rightarrow> pystr list \<times> play_result" where
  "play [] ins = ([], Ends)"
| "play (Say text_said v # vs) ins =
     (let (said, r) = play vs ins in (text_said # said, r))"
| "play (Hangup # vs) ins = ([], Ends)"
| "play (Redirect url # vs) ins =
     ([], Requests url \<lparr>Digits_field = None, SpeechResult_field = None\<rparr> ins)"
| "play (Gather g prompts # vs) [] = (map fst prompts, Awaits)"
| "play (Gather g prompts # vs) (Silence # ins) =
     (let (said, r) = play vs ins in (map fst prompts @ said, r))"
| "play (Gather g prompts # vs) (Pressed d # ins) =
     (map fst prompts, Requests (action g) \<lparr>Digits_field = Some d, SpeechResult_field = None\<rparr> ins)"
| "play (Gather g prompts # vs) (Spoke s # ins) =
     (map fst prompts, Requests (action g) \<lparr>Digits_field = None, SpeechResult_field = Some s\<rparr> ins)"

text \<open>
  The router matches the path of the URL; a query string (\<^verbatim>\<open>?Digits=1\<close>) is not a
  form field, so the handler's \<^verbatim>\<open>Form\<close> default applies.  Code point 63 is \<^verbatim>\<open>?\<close>.
\<close>

definition route ::
  "twilio_env \<Rightarrow> world \<Rightarrow> pystr \<Rightarrow> pystr \<Rightarrow> form \<Rightarrow> (world \<times> (exn + verb list)) option" where
  "route env w sid url f =
     (let path = takeWhile (\<lambda>c. c \<noteq> 63) url in
      if path = str ''/api/twilio/language-selection''
        then Some (handle_language_selection env w sid (Digits_field f))
      else if path = str ''/api/twilio/assistant-selection''
        then Some (handle_assistant_selection env w sid (Digits_field f))
      else if path = str ''/api/twilio/start-conversation''
        then Some (start_conversation env w sid)
      else if path = str ''/api/twilio/process-speech''
        then Some (process_speech env w sid (SpeechResult_field f))
      else None)"

datatype call_status = Hungup | AwaitingInput | Failed exn | NotFound | OutOfFuel

text \<open>
  One call: the request is routed, the document played against the caller's inputs,
  and the request it ends in is routed in turn.  Each request takes one unit of fuel.
  The result is the world, everything said to the caller, and how the call stands.
\<close>

fun call_flow ::
  "nat \<Rightarrow> twilio_env \<Rightarrow> world \<Rightarrow> pystr \<Rightarrow> pystr \<Rightarrow> form \<Rightarrow> caller_input list
     \<Rightarrow> world \<times> pystr list \<times> call_status" where
  "call_flow 0 env w sid url f ins = (w, [], OutOfFuel)"
| "call_flow (Suc n) env w sid url f ins =
     (case route env w sid url f of
        None \<Rightarrow> (w, [], NotFound)
      | Some (w1, Inl e) \<Rightarrow> (w1, [], Failed e)
      | Some (w1, Inr doc) \<Rightarrow>
          (case play doc ins of
             (said, Ends) \<Rightarrow> (w1, said, Hungup)
           | (said, Awaits) \<Rightarrow> (w1, said, AwaitingInput)
           | (said, Requests url' f' ins') \<Rightarrow>
               (let (w2, said', st) = call_flow n env w1 sid url' f' ins'
                in (w2, said @ said', st))))"

section \<open>Concrete inputs\<close>

text \<open>The inputs at which the properties below are run.\<close>

definition row :: "nat \<Rightarrow> string \<Rightarrow> string \<Rightarrow> conversation_row" where
  "row n u a =
     \<lparr>row_session_id = str ''s1'', row_timestamp = n,
      row_user_message = PyStr (str u), row_ai_response = PyStr (str a)\<rparr>"

text \<open>Twelve persisted turns of session \<^verbatim>\<open>s1\<close>, oldest first.\<close>

definition twelve_turns :: "conversation_row list" where
  "twelve_turns =
     [row 1 ''m01'' ''r01'', row 2 ''m02'' ''r02'', row 3 ''m03'' ''r03'',
      row 4 ''m04'' ''r04'', row 5 ''m05'' ''r05'', row 6 ''m06'' ''r06'',
      row 7 ''m07'' ''r07'', row 8 ''m08'' ''r08'', row 9 ''m09'' ''r09'',
      row 10 ''m10'' ''r10'', row 11 ''m11'' ''r11'', row 12 ''m12'' ''r12'']"

text \<open>
  A voice environment with a store, a generator that always gives \<open>reply\<close>, and
  ticketing that always gives \<open>ticket\<close>.
\<close>

definition voice_env_with :: "db \<Rightarrow> pystr \<Rightarrow> pystr option \<Rightarrow> voice_env" where
  "voice_env_with store reply ticket =
     \<lparr>database = store, uuid4 = str ''generated-id'',
      get_response = (\<lambda>context language_code assistant_name. Inr reply),
      create_trello_card = (\<lambda>title description. ticket),
      str_lower = ascii_lower\<rparr>"

definition request_of :: "string \<Rightarrow> history_item list option \<Rightarrow> TranscriptionRequest" where
  "request_of message client_history =
     \<lparr>transcription = str message, sessionId = Some (str ''s1''),
      req_language = str ''en-US'', assistantId = Some 2, history = client_history\<rparr>"

text \<open>
  Modelled from the spec: \<^verbatim>\<open>config.LANGUAGE_CONFIG\<close>, \<^verbatim>\<open>config.ASSISTANT_CONFIG\<close> and the
  constructor of \<^verbatim>\<open>models.CallSession\<close> are not part of the sources.  The spec gives a
  closed set of three locales and exactly two personas; the menu prompts of the
  handlers name them (1 English, 2 Arabic, 3 French; 1 Slah, 2 Amira), and the locale
  codes are the ones \<^verbatim>\<open>utils/text_utils.py\<close> lists.  The voice names and the
  constructor's own defaults are not determined by either and are placeholders: every
  entry speaks with the voice of the greeting, and a new session starts with the first
  language and the first persona.
\<close>

definition example_env :: twilio_env where
  "example_env =
     \<lparr>VoiceResponse = True,
      LANGUAGE_CONFIG =
        [(str ''1'', \<lparr>code = str ''en-US'', name = str ''English'', voice = str ''alice''\<rparr>),
         (str ''2'', \<lparr>code = str ''ar-SA'', name = str ''Arabic'', voice = str ''alice''\<rparr>),
         (str ''3'', \<lparr>code = str ''fr-FR'', name = str ''French'', voice = str ''alice''\<rparr>)],
      ASSISTANT_CONFIG =
        [(str ''1'', \<lparr>a_id = 1, a_name = str ''Slah'', a_type = str ''B2B''\<rparr>),
         (str ''2'', \<lparr>a_id = 2, a_name = str ''Amira'', a_type = str ''B2C''\<rparr>)],
      new_CallSession =
        (\<lambda>sid phone.
           \<lparr>call_sid = sid, caller_phone = phone, language = str ''en-US'',
            assistant_id = 1, caller_info = None\<rparr>),
      identify_caller_by_phone =
        (\<lambda>phone. \<lparr>is_registered = False, full_name = None, caller_user_id = None\<rparr>),
      rag_get_response = (\<lambda>speech language_code assistant_name. Inr (str ''Sure.''))\<rparr>"

text \<open>
  A world with one live session, for the call \<^verbatim>\<open>CA1\<close>, that has already chosen French
  and the first persona.
\<close>

definition live_world :: world where
  "live_world =
     \<lparr>heap =
        [\<lparr>call_sid = str ''CA1'', caller_phone = str ''+21620000000'',
          language = str ''fr-FR'', assistant_id = 1, caller_info = None\<rparr>],
      call_sessions = [str ''CA1'' \<mapsto> 0]\<rparr>"

section \<open>Properties of the issue-category extraction\<close>

text \<open>Three-fold existential introduction with the witnesses named.\<close>

lemma ex3I: "P a b c \<Longrightarrow> \<exists>a b c. P a b c"
  by blast

text \<open>
  \<open>max_key\<close> returns the first key of the largest value: everything before it is
  strictly smaller, everything after it is no larger.
\<close>

lemma max_key_first:
  "\<exists>pre v post. best # rest = pre @ (max_key best rest, v) # post
     \<and> (\<forall>p\<in>set pre. snd p < v) \<and> (\<forall>p\<in>set post. snd p \<le> v)"
proof (induction rest arbitrary: best)
  case Nil
  show ?case by (rule ex3I[of _ "[]" "snd best" "[]"]) simp
next
  case (Cons kv rest)
  show ?case
  proof (cases "snd best < snd kv")
    case True
    define m where "m = max_key kv rest"
    from Cons.IH[of kv] obtain pre v post where
      d: "kv # rest = pre @ (m, v) # post"
      and lt: "\<forall>p\<in>set pre. snd p < v" and le: "\<forall>p\<in>set post. snd p \<le> v"
      unfolding m_def by blast
    have mk: "max_key best (kv # rest) = m" using True by (simp add: m_def)
    have "kv \<in> set (pre @ (m, v) # post)" using d by (metis list.set_intros(1))
    then have "snd kv \<le> v" using lt le by (auto simp: less_imp_le)
    with True have "snd best < v" by simp
    with lt have lt': "\<forall>p\<in>set (best # pre). snd p < v" by simp
    have "best # kv # rest = (best # pre) @ (max_key best (kv # rest), v) # post"
      unfolding mk using d by simp
    with lt' le show ?thesis by (intro ex3I[of _ "best # pre" v post] conjI)
  next
    case False
    define m where "m = max_key best rest"
    from Cons.IH[of best] obtain pre v post where
      d: "best # rest = pre @ (m, v) # post"
      and lt: "\<forall>p\<in>set pre. snd p < v" and le: "\<forall>p\<in>set post. snd p \<le> v"
      unfolding m_def by blast
    have mk: "max_key best (kv # rest) = m" using False by (simp add: m_def)
    show ?thesis
    proof (cases pre)
      case Nil
      with d have b: "best = (m, v)" and r: "rest = post" by simp_all
      with False le have le': "\<forall>p\<in>set (kv # post). snd p \<le> v" by simp
      have "best # kv # rest = [] @ (max_key best (kv # rest), v) # kv # post"
        unfolding mk using b r by simp
      moreover have "\<forall>p\<in>set ([] :: ('a \<times> nat) list). snd p < v" by simp
      ultimately show ?thesis using le' by (intro ex3I[of _ "[]" v "kv # post"] conjI)
    next
      case (Cons b pre')
      with d have b: "b = best" and r: "rest = pre' @ (m, v) # post" by simp_all
      from lt Cons b have "snd best < v" by simp
      with False have "snd kv < v" by simp
      with lt Cons b have lt': "\<forall>p\<in>set (best # kv # pre'). snd p < v" by simp
      have "best # kv # rest = (best # kv # pre') @ (max_key best (kv # rest), v) # post"
        unfolding mk using r by simp
      with lt' le show ?thesis by (intro ex3I[of _ "best # kv # pre'" v post] conjI)
    qed
  qed
qed

text \<open>
  Assigning a key the dict does not hold appends it; so the loop over a table of
  distinct names lists the positive scores in table order.
\<close>

lemma update_fresh: "k \<notin> fst ` set d \<Longrightarrow> AList.update k v d = d @ [(k, v)]"
  by (induction d) auto

lemma fold_scores:
  "distinct (map fst ps) \<Longrightarrow> fst ` set d \<inter> fst ` set ps = {} \<Longrightarrow>
   fold (\<lambda>issue d. let score = sc issue
                     in if score > 0 then AList.update (fst issue) score d else d) ps d
   = d @ map (\<lambda>issue. (fst issue, sc issue)) (filter (\<lambda>issue. 0 < (sc issue :: nat)) ps)"
proof (induction ps arbitrary: d)
  case Nil
  then show ?case by simp
next
  case (Cons p ps)
  have fresh: "fst p \<notin> fst ` set d" using Cons.prems(2) by auto
  show ?case
  proof (cases "0 < sc p")
    case True
    have "fst ` set (d @ [(fst p, sc p)]) \<inter> fst ` set ps = {}"
      using Cons.prems by auto
    with Cons.IH[of "d @ [(fst p, sc p)]"] Cons.prems(1) True fresh show ?thesis
      by (simp add: update_fresh Let_def)
  next
    case False
    have "fst ` set d \<inter> fst ` set ps = {}" using Cons.prems(2) by auto
    with Cons.IH[of d] Cons.prems(1) False show ?thesis by (simp add: Let_def)
  qed
qed

lemma distinct_issue_types: "distinct (map fst issue_patterns)"
  by (simp add: issue_patterns_def str_def)

lemma issue_scores_eq:
  "issue_scores t =
     map (\<lambda>issue. (fst issue, keyword_score (snd issue) t))
       (filter (\<lambda>issue. 0 < keyword_score (snd issue) t) issue_patterns)"
  unfolding issue_scores_def
  using fold_scores[OF distinct_issue_types, of "[]" "\<lambda>issue. keyword_score (snd issue) t"]
  by simp


lemma map_filter_split:
  "map g (filter P ps) = A @ x # B \<Longrightarrow>
   \<exists>ps1 w ps2. ps = ps1 @ w # ps2 \<and> P w \<and> g w = x
      \<and> map g (filter P ps1) = A \<and> map g (filter P ps2) = B"
proof (induction ps arbitrary: A)
  case Nil
  then show ?case by simp
next
  case (Cons p ps)
  show ?case
  proof (cases "P p")
    case False
    with Cons.prems have "map g (filter P ps) = A @ x # B" by simp
    from Cons.IH[OF this] obtain ps1 w ps2 where
      "ps = ps1 @ w # ps2" "P w" "g w = x" "map g (filter P ps1) = A"
      "map g (filter P ps2) = B" by blast
    with False have "p # ps = (p # ps1) @ w # ps2 \<and> P w \<and> g w = x
      \<and> map g (filter P (p # ps1)) = A \<and> map g (filter P ps2) = B" by simp
    then show ?thesis by (rule ex3I[of _ "p # ps1" w ps2])
  next
    case True
    with Cons.prems have eq: "g p # map g (filter P ps) = A @ x # B" by simp
    show ?thesis
    proof (cases A)
      case Nil
      with eq True have "p # ps = [] @ p # ps \<and> P p \<and> g p = x
        \<and> map g (filter P []) = A \<and> map g (filter P ps) = B" by simp
      then show ?thesis by (rule ex3I[of _ "[]" p ps])
    next
      case (Cons a A')
      with eq have a: "g p = a" and "map g (filter P ps) = A' @ x # B" by simp_all
      from Cons.IH[OF this(2)] obtain ps1 w ps2 where
        "ps = ps1 @ w # ps2" "P w" "g w = x" "map g (filter P ps1) = A'"
        "map g (filter P ps2) = B" by blast
      with True a Cons have "p # ps = (p # ps1) @ w # ps2 \<and> P w \<and> g w = x
        \<and> map g (filter P (p # ps1)) = A \<and> map g (filter P ps2) = B" by simp
      then show ?thesis by (rule ex3I[of _ "p # ps1" w ps2])
    qed
  qed
qed

text \<open>
  \<^bold>\<open>C4.\<close>  The categories are enumerated in the order billing, internet, mobile,
  technical, account, service.  For every text (and every lower-casing function):
  when every category scores zero, \<open>extract_issue_type\<close> returns \<open>None\<close>; when some
  category scores above zero, it returns a category whose score no other category
  exceeds, and every category enumerated before it scores strictly less.  So the
  highest score wins, and among categories tied for the highest score the one
  enumerated first is returned.
\<close>

theorem extract_issue_type_first_highest:
  "map fst issue_patterns =
     [str ''billing'', str ''internet'', str ''mobile'', str ''technical'',
      str ''account'', str ''service'']
   \<and> ((\<forall>issue\<in>set issue_patterns. keyword_score (snd issue) (lower input_text) = 0)
        \<longrightarrow> extract_issue_type lower input_text = None)
   \<and> ((\<exists>issue\<in>set issue_patterns. 0 < keyword_score (snd issue) (lower input_text))
        \<longrightarrow> (\<exists>earlier winner later.
               issue_patterns = earlier @ winner # later
             \<and> extract_issue_type lower input_text = Some (fst winner)
             \<and> (\<forall>issue\<in>set earlier.
                   keyword_score (snd issue) (lower input_text)
                     < keyword_score (snd winner) (lower input_text))
             \<and> (\<forall>issue\<in>set later.
                   keyword_score (snd issue) (lower input_text)
                     \<le> keyword_score (snd winner) (lower input_text))))"
proof (intro conjI impI)
  show "map fst issue_patterns =
     [str ''billing'', str ''internet'', str ''mobile'', str ''technical'',
      str ''account'', str ''service'']"
    by (simp add: issue_patterns_def)
next
  assume "\<forall>issue\<in>set issue_patterns. keyword_score (snd issue) (lower input_text) = 0"
  then have "filter (\<lambda>issue. 0 < keyword_score (snd issue) (lower input_text)) issue_patterns = []"
    by (simp add: filter_empty_conv)
  then show "extract_issue_type lower input_text = None"
    by (simp add: extract_issue_type_def issue_scores_eq)
next
  define sc where "sc = (\<lambda>issue :: pystr \<times> pystr list. keyword_score (snd issue) (lower input_text))"
  define g where "g = (\<lambda>issue :: pystr \<times> pystr list. (fst issue, sc issue))"
  define P where "P = (\<lambda>issue :: pystr \<times> pystr list. 0 < sc issue)"
  assume "\<exists>issue\<in>set issue_patterns. 0 < keyword_score (snd issue) (lower input_text)"
  then have "filter P issue_patterns \<noteq> []"
    by (auto simp: filter_empty_conv P_def sc_def)
  then obtain kv rest where kv: "map g (filter P issue_patterns) = kv # rest"
    by (cases "filter P issue_patterns") auto
  have scores: "issue_scores (lower input_text) = map g (filter P issue_patterns)"
    by (simp add: issue_scores_eq g_def P_def sc_def)
  have res: "extract_issue_type lower input_text = Some (max_key kv rest)"
    by (simp add: extract_issue_type_def scores kv)
  from max_key_first[of kv rest] obtain pre v post where
    d: "kv # rest = pre @ (max_key kv rest, v) # post"
    and lt: "\<forall>p\<in>set pre. snd p < v" and le: "\<forall>p\<in>set post. snd p \<le> v" by blast
  from d kv have "map g (filter P issue_patterns) = pre @ (max_key kv rest, v) # post" by simp
  from map_filter_split[OF this] obtain earlier winner later where
    split: "issue_patterns = earlier @ winner # later" and pw: "P winner"
    and gw: "g winner = (max_key kv rest, v)"
    and pre: "map g (filter P earlier) = pre" and post: "map g (filter P later) = post"
    by blast
  from gw have fw: "fst winner = max_key kv rest" and v: "sc winner = v" by (simp_all add: g_def)
  from pw v have vpos: "0 < v" by (simp add: P_def)
  have early: "\<forall>issue\<in>set earlier. sc issue < sc winner"
  proof
    fix issue assume i: "issue \<in> set earlier"
    show "sc issue < sc winner"
    proof (cases "P issue")
      case True
      with i have "g issue \<in> set pre" unfolding pre[symmetric] by simp
      with lt have "snd (g issue) < v" by blast
      then show ?thesis by (simp add: g_def v)
    next
      case False
      then show ?thesis using vpos v by (simp add: P_def)
    qed
  qed
  have late: "\<forall>issue\<in>set later. sc issue \<le> sc winner"
  proof
    fix issue assume i: "issue \<in> set later"
    show "sc issue \<le> sc winner"
    proof (cases "P issue")
      case True
      with i have "g issue \<in> set post" unfolding post[symmetric] by simp
      with le have "snd (g issue) \<le> v" by blast
      then show ?thesis by (simp add: g_def v)
    next
      case False
      then show ?thesis using vpos v by (simp add: P_def)
    qed
  qed
  from split res fw early late have
    "issue_patterns = earlier @ winner # later
     \<and> extract_issue_type lower input_text = Some (fst winner)
     \<and> (\<forall>issue\<in>set earlier.
           keyword_score (snd issue) (lower input_text)
             < keyword_score (snd winner) (lower input_text))
     \<and> (\<forall>issue\<in>set later.
           keyword_score (snd issue) (lower input_text)
             \<le> keyword_score (snd winner) (lower input_text))"
    by (simp add: sc_def)
  then show "\<exists>earlier winner later.
               issue_patterns = earlier @ winner # later
             \<and> extract_issue_type lower input_text = Some (fst winner)
             \<and> (\<forall>issue\<in>set earlier.
                   keyword_score (snd issue) (lower input_text)
                     < keyword_score (snd winner) (lower input_text))
             \<and> (\<forall>issue\<in>set later.
                   keyword_score (snd issue) (lower input_text)
                     \<le> keyword_score (snd winner) (lower input_text))"
    by (rule ex3I[of _ earlier winner later])
qed


text \<open>
  The theorem at \<^verbatim>\<open>"My BILL and WiFi"\<close>: billing and internet score one hit each, the
  other categories none, and the earlier of the two, billing, is returned.  And at
  \<^verbatim>\<open>"Hello"\<close>: no category scores, and the result is \<open>None\<close>.
\<close>

lemma bill_wifi_lower:
  "ascii_lower (str ''My BILL and WiFi'') =
     [109, 121, 32, 98, 105, 108, 108, 32, 97, 110, 100, 32, 119, 105, 102, 105]"
  by (simp add: ascii_lower_def str_def)

lemma bill_wifi_billing:
  "keyword_score billing_keywords
     [109, 121, 32, 98, 105, 108, 108, 32, 97, 110, 100, 32, 119, 105, 102, 105] = 1"
  by (simp add: keyword_score_def billing_keywords_def str_def)

lemma bill_wifi_internet:
  "keyword_score internet_keywords
     [109, 121, 32, 98, 105, 108, 108, 32, 97, 110, 100, 32, 119, 105, 102, 105] = 1"
  by (simp add: keyword_score_def internet_keywords_def str_def)

lemma bill_wifi_mobile:
  "keyword_score mobile_keywords
     [109, 121, 32, 98, 105, 108, 108, 32, 97, 110, 100, 32, 119, 105, 102, 105] = 0"
  by (simp add: keyword_score_def mobile_keywords_def str_def)

lemma bill_wifi_technical:
  "keyword_score technical_keywords
     [109, 121, 32, 98, 105, 108, 108, 32, 97, 110, 100, 32, 119, 105, 102, 105] = 0"
  by (simp add: keyword_score_def technical_keywords_def str_def)

lemma bill_wifi_account:
  "keyword_score account_keywords
     [109, 121, 32, 98, 105, 108, 108, 32, 97, 110, 100, 32, 119, 105, 102, 105] = 0"
  by (simp add: keyword_score_def account_keywords_def str_def)

lemma bill_wifi_service:
  "keyword_score service_keywords
     [109, 121, 32, 98, 105, 108, 108, 32, 97, 110, 100, 32, 119, 105, 102, 105] = 0"
  by (simp add: keyword_score_def service_keywords_def str_def)

lemmas bill_wifi_scores =
  bill_wifi_billing bill_wifi_internet bill_wifi_mobile bill_wifi_technical
  bill_wifi_account bill_wifi_service

lemma hello_lower: "ascii_lower (str ''Hello'') = [104, 101, 108, 108, 111]"
  by (simp add: ascii_lower_def str_def)

lemma hello_scores:
  "keyword_score billing_keywords [104, 101, 108, 108, 111] = 0"
  "keyword_score internet_keywords [104, 101, 108, 108, 111] = 0"
  "keyword_score mobile_keywords [104, 101, 108, 108, 111] = 0"
  "keyword_score technical_keywords [104, 101, 108, 108, 111] = 0"
  "keyword_score account_keywords [104, 101, 108, 108, 111] = 0"
  "keyword_score service_keywords [104, 101, 108, 108, 111] = 0"
  by (simp_all add: keyword_score_def billing_keywords_def internet_keywords_def
        mobile_keywords_def technical_keywords_def account_keywords_def
        service_keywords_def str_def)

theorem extract_issue_type_tie_witness:
  "keyword_score billing_keywords (ascii_lower (str ''My BILL and WiFi'')) = 1
   \<and> keyword_score internet_keywords (ascii_lower (str ''My BILL and WiFi'')) = 1
   \<and> extract_issue_type ascii_lower (str ''My BILL and WiFi'') = Some (str ''billing'')
   \<and> extract_issue_type ascii_lower (str ''Hello'') = None"
proof -
  let ?t = "str ''My BILL and WiFi''"
  let ?sc = "\<lambda>issue :: pystr \<times> pystr list. keyword_score (snd issue) (ascii_lower ?t)"
  have some: "\<exists>issue\<in>set issue_patterns. 0 < ?sc issue"
    by (simp add: issue_patterns_def bill_wifi_lower bill_wifi_scores)
  have le1: "\<forall>issue\<in>set issue_patterns. ?sc issue \<le> 1"
    by (simp add: issue_patterns_def bill_wifi_lower bill_wifi_scores)
  from extract_issue_type_first_highest[of ascii_lower ?t] some
  obtain earlier winner later where
    split: "issue_patterns = earlier @ winner # later"
    and res: "extract_issue_type ascii_lower ?t = Some (fst winner)"
    and early: "\<forall>issue\<in>set earlier. ?sc issue < ?sc winner"
    by blast
  have "winner \<in> set issue_patterns" unfolding split by simp
  with le1 have w1: "?sc winner \<le> 1" by blast
  have "earlier = []"
  proof (cases earlier)
    case Nil
    then show ?thesis .
  next
    case (Cons e es)
    with split have "e = (str ''billing'', billing_keywords)"
      by (simp add: issue_patterns_def)
    then have "?sc e = 1" by (simp add: bill_wifi_lower bill_wifi_scores)
    moreover from Cons early have "?sc e < ?sc winner" by simp
    ultimately show ?thesis using w1 by simp
  qed
  with split have "winner = (str ''billing'', billing_keywords)"
    by (simp add: issue_patterns_def)
  with res have tie: "extract_issue_type ascii_lower ?t = Some (str ''billing'')" by simp
  have zero: "\<forall>issue\<in>set issue_patterns.
                keyword_score (snd issue) (ascii_lower (str ''Hello'')) = 0"
    by (simp add: issue_patterns_def hello_lower hello_scores)
  with extract_issue_type_first_highest[of ascii_lower "str ''Hello''"]
  have none: "extract_issue_type ascii_lower (str ''Hello'') = None" by blast
  from tie none show ?thesis by (simp add: bill_wifi_lower bill_wifi_scores)
qed

section \<open>Sessions across the handlers\<close>

text \<open>Looking the session up, or making it: the two cases of \<open>session_or_new\<close>.\<close>

lemma session_or_new_live:
  "call_sessions w sid = Some r \<Longrightarrow> session_or_new env w sid f = (w, r)"
  by (simp add: session_or_new_def)

lemma session_or_new_missing:
  "call_sessions w sid = None \<Longrightarrow>
   session_or_new env w sid f =
     (w\<lparr>heap := heap w @ [f (new_CallSession env sid (str ''unknown''))],
        call_sessions := (call_sessions w)(sid \<mapsto> length (heap w))\<rparr>,
      length (heap w))"
  by (simp add: session_or_new_def get_or_create_call_session_def assign_def)

lemma session_or_new_bound:
  "wf_world w \<Longrightarrow> session_or_new env w sid f = (w1, r) \<Longrightarrow>
   call_sessions w1 sid = Some r \<and> r < length (heap w1) \<and> wf_world w1"
  by (cases "call_sessions w sid")
     (auto simp: session_or_new_missing session_or_new_live wf_world_def less_Suc_eq
           split: if_splits)

text \<open>
  The invariant.  The empty world satisfies \<open>wf_world\<close> and every handler keeps it, so
  it holds in every world the routes can reach; within it a reference read from the
  dict is always in range.
\<close>

lemma wf_assign: "wf_world w \<Longrightarrow> wf_world (assign w r f)"
  by (simp add: wf_world_def assign_def)

lemma wf_get_or_create:
  "wf_world w \<Longrightarrow> wf_world (fst (get_or_create_call_session env w sid phone))"
  by (auto simp: wf_world_def get_or_create_call_session_def less_Suc_eq
           split: option.splits if_splits)

lemma wf_session_or_new:
  "wf_world w \<Longrightarrow> wf_world (fst (session_or_new env w sid f))"
  using session_or_new_bound[of w env sid f] by (cases "session_or_new env w sid f") simp

lemma wf_status_callback: "wf_world w \<Longrightarrow> wf_world (handle_status_callback w sid st)"
  by (auto simp: wf_world_def handle_status_callback_def)

lemma handlers_preserve_wf:
  assumes "wf_world w"
  shows "wf_world (fst (handle_incoming_call env w sid From))"
    and "wf_world (fst (handle_language_selection env w sid Digits))"
    and "wf_world (fst (handle_assistant_selection env w sid Digits))"
    and "wf_world (fst (start_conversation env w sid))"
    and "wf_world (fst (process_speech env w sid SpeechResult))"
proof -
  show "wf_world (fst (handle_incoming_call env w sid From))"
    using wf_get_or_create[OF assms, of env sid From] assms
    by (auto simp: handle_incoming_call_def Let_def wf_assign split: prod.splits)
  show "wf_world (fst (handle_language_selection env w sid Digits))"
    using wf_session_or_new[OF assms, of env sid "\<lambda>s. s"] assms
    by (auto simp: handle_language_selection_def Let_def wf_assign
             split: prod.splits option.splits)
  show "wf_world (fst (handle_assistant_selection env w sid Digits))"
    using wf_session_or_new[OF assms, of env sid "\<lambda>s. s\<lparr>language := str ''en-US''\<rparr>"] assms
    by (auto simp: handle_assistant_selection_def Let_def wf_assign
             split: prod.splits option.splits)
  show "wf_world (fst (start_conversation env w sid))"
    using wf_session_or_new[OF assms, of env sid
            "\<lambda>s. s\<lparr>language := str ''en-US'', assistant_id := 2\<rparr>"] assms
    by (auto simp: start_conversation_def Let_def split: prod.splits option.splits)
  show "wf_world (fst (process_speech env w sid SpeechResult))"
    using wf_session_or_new[OF assms, of env sid
            "\<lambda>s. s\<lparr>language := str ''en-US'', assistant_id := 2\<rparr>"] assms
    by (auto simp: process_speech_def Let_def split: prod.splits option.splits sum.splits)
qed

text \<open>
  No handler but the status callback removes or rebinds a key: a session that is live
  stays bound to the same object.
\<close>

lemma assign_keeps_dict: "call_sessions (assign w r f) = call_sessions w"
  by (simp add: assign_def)

lemma session_or_new_keeps_binding:
  "call_sessions w k = Some r \<Longrightarrow> call_sessions (fst (session_or_new env w sid f)) k = Some r"
  by (cases "call_sessions w sid")
     (auto simp: session_or_new_missing session_or_new_live)

lemma handlers_keep_binding:
  assumes "call_sessions w k = Some r"
  shows "call_sessions (fst (handle_incoming_call env w sid From)) k = Some r"
    and "call_sessions (fst (handle_language_selection env w sid Digits)) k = Some r"
    and "call_sessions (fst (handle_assistant_selection env w sid Digits)) k = Some r"
    and "call_sessions (fst (start_conversation env w sid)) k = Some r"
    and "call_sessions (fst (process_speech env w sid SpeechResult)) k = Some r"
proof -
  show "call_sessions (fst (handle_incoming_call env w sid From)) k = Some r"
    using assms
    by (auto simp: handle_incoming_call_def get_or_create_call_session_def Let_def
          assign_keeps_dict split: option.splits)
  show "call_sessions (fst (handle_language_selection env w sid Digits)) k = Some r"
    using session_or_new_keeps_binding[OF assms, of env sid "\<lambda>s. s"] assms
    by (auto simp: handle_language_selection_def Let_def assign_keeps_dict
             split: prod.splits option.splits)
  show "call_sessions (fst (handle_assistant_selection env w sid Digits)) k = Some r"
    using session_or_new_keeps_binding[OF assms, of env sid
            "\<lambda>s. s\<lparr>language := str ''en-US''\<rparr>"] assms
    by (auto simp: handle_assistant_selection_def Let_def assign_keeps_dict
             split: prod.splits option.splits)
  show "call_sessions (fst (start_conversation env w sid)) k = Some r"
    using session_or_new_keeps_binding[OF assms, of env sid
            "\<lambda>s. s\<lparr>language := str ''en-US'', assistant_id := 2\<rparr>"] assms
    by (auto simp: start_conversation_def Let_def split: prod.splits option.splits)
  show "call_sessions (fst (process_speech env w sid SpeechResult)) k = Some r"
    using session_or_new_keeps_binding[OF assms, of env sid
            "\<lambda>s. s\<lparr>language := str ''en-US'', assistant_id := 2\<rparr>"] assms
    by (auto simp: process_speech_def Let_def split: prod.splits option.splits sum.splits)
qed

section \<open>Properties of the session store\<close>

text \<open>
  \<^bold>\<open>C7.\<close>  \<open>get_or_create_call_session\<close> is idempotent.  After a call for a key
  the key is bound to the reference returned; a second call with the same key
  (whatever phone number it passes) returns the same reference and leaves the world,
  and so the state of the session, untouched; and so does a call in any later world
  in which the key is still bound to that reference, that is, as long as it was not
  removed.  The first call for a key the dict does not hold constructs a new session,
  \<^verbatim>\<open>CallSession(call_sid, caller_phone)\<close>, and appends it to the heap.
\<close>

theorem get_or_create_idempotent:
  assumes "get_or_create_call_session env w sid phone = (w1, s1)"
  shows "call_sessions w1 sid = Some s1
       \<and> get_or_create_call_session env w1 sid phone' = (w1, s1)
       \<and> (\<forall>w'. call_sessions w' sid = Some s1 \<longrightarrow>
              get_or_create_call_session env w' sid phone' = (w', s1))
       \<and> (call_sessions w sid = None \<longrightarrow>
            s1 = length (heap w) \<and> heap w1 = heap w @ [new_CallSession env sid phone])"
  using assms
  by (auto simp: get_or_create_call_session_def split: option.splits)

text \<open>
  The theorem in the empty world: the first call for \<^verbatim>\<open>CA1\<close> allocates reference 0, the
  second returns it and changes nothing, and the session keeps the phone number of the
  first call.  After a language selection has changed the session, a further call
  still returns reference 0.
\<close>

theorem get_or_create_idempotent_witness:
  "(case get_or_create_call_session example_env empty_world (str ''CA1'')
           (str ''+21620000000'') of
      (w1, s1) \<Rightarrow>
        s1 = 0
      \<and> get_or_create_call_session example_env w1 (str ''CA1'') (str ''unknown'') = (w1, 0)
      \<and> caller_phone (heap w1 ! 0) = str ''+21620000000''
      \<and> (case handle_language_selection example_env w1 (str ''CA1'') (Some (str ''3'')) of
            (w', result) \<Rightarrow>
              get_or_create_call_session example_env w' (str ''CA1'') (str ''unknown'')
                = (w', 0)))"
proof -
  obtain w1 s1 where a:
    "get_or_create_call_session example_env empty_world (str ''CA1'') (str ''+21620000000'')
       = (w1, s1)" by fastforce
  obtain w' result where b:
    "handle_language_selection example_env w1 (str ''CA1'') (Some (str ''3'')) = (w', result)"
    by fastforce
  have none: "call_sessions empty_world (str ''CA1'') = None"
    and h: "heap empty_world = []" by (simp_all add: empty_world_def)
  note idem = get_or_create_idempotent[OF a, of "str ''unknown''"]
  from idem none h have
    s: "s1 = 0"
    and bound: "call_sessions w1 (str ''CA1'') = Some s1"
    and again: "get_or_create_call_session example_env w1 (str ''CA1'') (str ''unknown'')
                  = (w1, s1)"
    and obj: "heap w1 = [new_CallSession example_env (str ''CA1'') (str ''+21620000000'')]"
    by simp_all
  from handlers_keep_binding(2)[OF bound, of example_env "str ''CA1''" "Some (str ''3'')"] b
  have "call_sessions w' (str ''CA1'') = Some s1" by simp
  with idem have later:
    "get_or_create_call_session example_env w' (str ''CA1'') (str ''unknown'') = (w', s1)"
    by blast
  from obj have "caller_phone (heap w1 ! 0) = str ''+21620000000''"
    by (simp add: example_env_def)
  with s again later show ?thesis by (simp add: a b)
qed

text \<open>
  \<^bold>\<open>C6.\<close>  For each of the statuses completed, failed, busy, no-answer and canceled,
  and whatever the world was (every reference of the dict pointing into the heap),
  \<open>handle_status_callback\<close> leaves the dict without the CallSid.  A following
  \<open>get_or_create_call_session\<close> for the same CallSid binds it to a session that is
  exactly the one the constructor builds, under a reference that is not the evicted
  one, and no session that existed before is changed.  So does the next incoming call
  with that CallSid: its session is the constructor's, with only the caller's identity
  filled in.
\<close>

theorem status_callback_evicts:
  assumes "wf_world w"
      and "CallStatus \<in> set [str ''completed'', str ''failed'', str ''busy'',
                               str ''no-answer'', str ''canceled'']"
  shows "call_sessions (handle_status_callback w sid CallStatus) sid = None
       \<and> (case get_or_create_call_session env (handle_status_callback w sid CallStatus)
                  sid phone of
             (w2, s) \<Rightarrow>
               call_sessions w2 sid = Some s
             \<and> heap w2 ! s = new_CallSession env sid phone
             \<and> call_sessions w sid \<noteq> Some s
             \<and> (\<forall>r<length (heap w). heap w2 ! r = heap w ! r))
       \<and> (VoiceResponse env \<longrightarrow>
            (case handle_incoming_call env (handle_status_callback w sid CallStatus)
                    sid phone of
               (w2, result) \<Rightarrow>
                 (\<exists>doc. result = Inr doc)
               \<and> (\<exists>s. call_sessions w2 sid = Some s
                      \<and> call_sessions w sid \<noteq> Some s
                      \<and> heap w2 ! s
                          = (new_CallSession env sid phone)
                              \<lparr>caller_info := Some (identify_caller_by_phone env phone)\<rparr>)))"
proof -
  let ?w1 = "handle_status_callback w sid CallStatus"
  from assms(2) have t: "CallStatus \<in> set terminal_statuses"
    by (simp add: terminal_statuses_def)
  then have gone: "call_sessions ?w1 sid = None" and h: "heap ?w1 = heap w"
    by (auto simp: handle_status_callback_def)
  from assms(1) have fresh: "call_sessions w sid \<noteq> Some (length (heap w))"
    by (auto simp: wf_world_def)
  have g: "get_or_create_call_session env ?w1 sid phone =
             (?w1\<lparr>heap := heap w @ [new_CallSession env sid phone],
                   call_sessions := (call_sessions ?w1)(sid \<mapsto> length (heap w))\<rparr>,
              length (heap w))"
    using gone h by (simp add: get_or_create_call_session_def)
  show ?thesis
  proof (intro conjI impI)
    show "call_sessions ?w1 sid = None" by (rule gone)
  next
    show "case get_or_create_call_session env ?w1 sid phone of
             (w2, s) \<Rightarrow>
               call_sessions w2 sid = Some s
             \<and> heap w2 ! s = new_CallSession env sid phone
             \<and> call_sessions w sid \<noteq> Some s
             \<and> (\<forall>r<length (heap w). heap w2 ! r = heap w ! r)"
      unfolding g using fresh by (simp add: nth_append)
  next
    assume "VoiceResponse env"
    then show "case handle_incoming_call env ?w1 sid phone of
               (w2, result) \<Rightarrow>
                 (\<exists>doc. result = Inr doc)
               \<and> (\<exists>s. call_sessions w2 sid = Some s
                      \<and> call_sessions w sid \<noteq> Some s
                      \<and> heap w2 ! s
                          = (new_CallSession env sid phone)
                              \<lparr>caller_info := Some (identify_caller_by_phone env phone)\<rparr>)"
      unfolding handle_incoming_call_def g using fresh
      by (simp add: assign_def Let_def)
  qed
qed

text \<open>
  The theorem at a live session that had chosen French: after \<^verbatim>\<open>completed\<close> the key is
  gone, and the next session for \<^verbatim>\<open>CA1\<close> is a new object (reference 1) with the
  constructor's language and persona, beside the old one, which is as it was; the
  next incoming call gets a new object in the same way.
\<close>

theorem status_callback_evicts_witness:
  "call_sessions live_world (str ''CA1'') = Some 0
   \<and> language (heap live_world ! 0) = str ''fr-FR''
   \<and> call_sessions (handle_status_callback live_world (str ''CA1'') (str ''completed''))
        (str ''CA1'') = None
   \<and> (case get_or_create_call_session example_env
             (handle_status_callback live_world (str ''CA1'') (str ''completed''))
             (str ''CA1'') (str ''+21620000000'') of
         (w2, s) \<Rightarrow> s = 1 \<and> call_sessions w2 (str ''CA1'') = Some 1
                   \<and> language (heap w2 ! s) = str ''en-US''
                   \<and> assistant_id (heap w2 ! s) = 1
                   \<and> heap w2 ! 0 = heap live_world ! 0)
   \<and> (case handle_incoming_call example_env
             (handle_status_callback live_world (str ''CA1'') (str ''completed''))
             (str ''CA1'') (str ''+21620000000'') of
         (w2, result) \<Rightarrow>
           (\<exists>doc. result = Inr doc)
         \<and> (\<exists>s. call_sessions w2 (str ''CA1'') = Some s \<and> s \<noteq> 0
                \<and> language (heap w2 ! s) = str ''en-US''))"
proof -
  have wf: "wf_world live_world" by (simp add: wf_world_def live_world_def)
  have st: "str ''completed'' \<in> set [str ''completed'', str ''failed'', str ''busy'',
                               str ''no-answer'', str ''canceled'']" by simp
  have v: "VoiceResponse example_env" by (simp add: example_env_def)
  have live: "call_sessions live_world (str ''CA1'') = Some 0"
    and fr: "language (heap live_world ! 0) = str ''fr-FR''"
    and len: "length (heap live_world) = 1"
    by (simp_all add: live_world_def)
  have new: "language (new_CallSession example_env sid phone) = str ''en-US''"
            "assistant_id (new_CallSession example_env sid phone) = 1" for sid phone
    by (simp_all add: example_env_def)
  obtain w2 s where g:
    "get_or_create_call_session example_env
       (handle_status_callback live_world (str ''CA1'') (str ''completed''))
       (str ''CA1'') (str ''+21620000000'') = (w2, s)" by fastforce
  obtain w3 result where i:
    "handle_incoming_call example_env
       (handle_status_callback live_world (str ''CA1'') (str ''completed''))
       (str ''CA1'') (str ''+21620000000'') = (w3, result)" by fastforce
  have s: "s = 1" using g
    by (simp add: get_or_create_call_session_def handle_status_callback_def
          terminal_statuses_def live_world_def split: option.splits if_splits)
  note ev = status_callback_evicts[OF wf st, of "str ''CA1''" example_env "str ''+21620000000''"]
  from ev g have
    gone: "call_sessions (handle_status_callback live_world (str ''CA1'') (str ''completed''))
          (str ''CA1'') = None"
    and bound: "call_sessions w2 (str ''CA1'') = Some s"
    and fresh: "heap w2 ! s = new_CallSession example_env (str ''CA1'') (str ''+21620000000'')"
    and old: "\<forall>r<length (heap live_world). heap w2 ! r = heap live_world ! r"
    by simp_all
  from old len have old0: "heap w2 ! 0 = heap live_world ! 0" by simp
  from ev v i live obtain s' doc where
    r: "result = Inr doc" and b3: "call_sessions w3 (str ''CA1'') = Some s'"
    and n3: "Some 0 \<noteq> Some s'"
    and o3: "heap w3 ! s' = (new_CallSession example_env (str ''CA1'') (str ''+21620000000''))
               \<lparr>caller_info := Some (identify_caller_by_phone example_env
                                        (str ''+21620000000''))\<rparr>"
    by auto
  from o3 have l3: "language (heap w3 ! s') = str ''en-US''" by (simp add: new)
  from n3 have "s' \<noteq> 0" by simp
  with r b3 l3 have inc: "(\<exists>doc. result = Inr doc)
         \<and> (\<exists>s. call_sessions w3 (str ''CA1'') = Some s \<and> s \<noteq> 0
                \<and> language (heap w3 ! s) = str ''en-US'')" by blast
  from fresh have "language (heap w2 ! s) = str ''en-US''" "assistant_id (heap w2 ! s) = 1"
    by (simp_all add: new)
  with live fr gone bound s old0 inc show ?thesis by (simp add: g i)
qed

section \<open>Properties of the Twilio handlers\<close>

lemma assign_at:
  "r < length (heap w) \<Longrightarrow>
   heap (assign w r f) ! r = f (heap w ! r) \<and> call_sessions (assign w r f) = call_sessions w
   \<and> length (heap (assign w r f)) = length (heap w)"
  by (simp add: assign_def)

lemma config_for_language_Some:
  "\<exists>lang. config_for_language items l (Some x) = Some lang"
  by (simp add: config_for_language_def split: option.splits)

text \<open>
  How an unanswered prompt reaches the next handler: the gather times out, the
  document goes on to its redirect, and the request that follows carries no
  \<^verbatim>\<open>Digits\<close> field.
\<close>

lemma route_language_selection:
  "route env w sid (str ''/api/twilio/language-selection?Digits=1'') f
     = Some (handle_language_selection env w sid (Digits_field f))"
  by (simp add: route_def str_def)

lemma route_assistant_selection_default:
  "route env w sid (str ''/api/twilio/assistant-selection?Digits=2'') f
     = Some (handle_assistant_selection env w sid (Digits_field f))"
  by (simp add: route_def str_def)

lemma unanswered_language_prompt:
  assumes "VoiceResponse env"
  shows "\<exists>w1 doc said.
           handle_incoming_call env w sid From = (w1, Inr doc)
         \<and> play doc (Silence # ins)
             = (said, Requests (str ''/api/twilio/language-selection?Digits=1'')
                        \<lparr>Digits_field = None, SpeechResult_field = None\<rparr> ins)
         \<and> route env w1 sid (str ''/api/twilio/language-selection?Digits=1'')
               \<lparr>Digits_field = None, SpeechResult_field = None\<rparr>
             = Some (handle_language_selection env w1 sid None)"
  using assms
  by (simp add: handle_incoming_call_def Let_def route_language_selection
        split: prod.splits)

lemma unanswered_persona_prompt:
  assumes "VoiceResponse env"
      and "map_of (LANGUAGE_CONFIG env) (str ''1'') = Some english"
  shows "\<exists>w1 doc said.
           handle_language_selection env w sid Digits1 = (w1, Inr doc)
         \<and> play doc (Silence # ins)
             = (said, Requests (str ''/api/twilio/assistant-selection?Digits=2'')
                        \<lparr>Digits_field = None, SpeechResult_field = None\<rparr> ins)
         \<and> route env w1 sid (str ''/api/twilio/assistant-selection?Digits=2'')
               \<lparr>Digits_field = None, SpeechResult_field = None\<rparr>
             = Some (handle_assistant_selection env w1 sid None)"
  using assms
  by (simp add: handle_language_selection_def Let_def route_assistant_selection_default
        split: prod.splits)

text \<open>
  \<^bold>\<open>C8.\<close>  With the \<^verbatim>\<open>twilio\<close> package present and the menus holding their fallback
  entries (\<^verbatim>\<open>LANGUAGE_CONFIG["1"]\<close>, \<^verbatim>\<open>ASSISTANT_CONFIG["2"]\<close>): a language selection
  that arrives with no digit (the prompt timed out and the redirect posted none, so
  the form default \<^verbatim>\<open>"1"\<close> applies) or with a digit that is not in the menu answers
  with a document, never an exception, and leaves the session with the language of
  entry \<^verbatim>\<open>"1"\<close>; an assistant selection with no digit or a digit not in the menu
  answers with a document and leaves the session with the persona of entry \<^verbatim>\<open>"2"\<close>.
\<close>

theorem default_language_and_persona:
  assumes "VoiceResponse env" and "wf_world w"
      and "map_of (LANGUAGE_CONFIG env) (str ''1'') = Some english"
      and "map_of (ASSISTANT_CONFIG env) (str ''2'') = Some amira"
      and "Digits1 = None \<or> (\<exists>d. Digits1 = Some d \<and> map_of (LANGUAGE_CONFIG env) d = None)"
      and "Digits2 = None \<or> (\<exists>d. Digits2 = Some d \<and> map_of (ASSISTANT_CONFIG env) d = None)"
  shows "(case handle_language_selection env w sid Digits1 of
            (w', result) \<Rightarrow>
              (\<exists>doc. result = Inr doc)
            \<and> (\<exists>s. call_sessions w' sid = Some s \<and> language (heap w' ! s) = code english))
       \<and> (case handle_assistant_selection env w sid Digits2 of
            (w', result) \<Rightarrow>
              (\<exists>doc. result = Inr doc)
            \<and> (\<exists>s. call_sessions w' sid = Some s
                     \<and> assistant_id (heap w' ! s) = a_id amira))"
proof
  obtain w1 r where s: "session_or_new env w sid (\<lambda>s. s) = (w1, r)" by fastforce
  from session_or_new_bound[OF assms(2) s] have
    b: "call_sessions w1 sid = Some r" "r < length (heap w1)" by simp_all
  have lang: "(case map_of (LANGUAGE_CONFIG env)
                       (case Digits1 of Some d \<Rightarrow> d | None \<Rightarrow> str ''1'') of
                 Some c \<Rightarrow> c | None \<Rightarrow> english) = english"
    using assms(3,5) by auto
  show "case handle_language_selection env w sid Digits1 of
            (w', result) \<Rightarrow>
              (\<exists>doc. result = Inr doc)
            \<and> (\<exists>s. call_sessions w' sid = Some s \<and> language (heap w' ! s) = code english)"
    using assms(1,3) s b lang
    by (simp add: handle_language_selection_def Let_def assign_at)
next
  obtain w1 r where s:
    "session_or_new env w sid (\<lambda>s. s\<lparr>language := str ''en-US''\<rparr>) = (w1, r)" by fastforce
  from session_or_new_bound[OF assms(2) s] have
    b: "call_sessions w1 sid = Some r" "r < length (heap w1)" by simp_all
  have who: "(case map_of (ASSISTANT_CONFIG env)
                       (case Digits2 of Some d \<Rightarrow> d | None \<Rightarrow> str ''2'') of
                 Some c \<Rightarrow> c | None \<Rightarrow> amira) = amira"
    using assms(4,6) by auto
  show "case handle_assistant_selection env w sid Digits2 of
            (w', result) \<Rightarrow>
              (\<exists>doc. result = Inr doc)
            \<and> (\<exists>s. call_sessions w' sid = Some s
                     \<and> assistant_id (heap w' ! s) = a_id amira)"
    using assms(1,3,4) s b who
    by (simp add: handle_assistant_selection_def Let_def assign_at config_for_language_def
             split: option.splits)
qed


text \<open>
  The theorem at a live session that had chosen French and Slah, with the menus of
  \<open>example_env\<close>: an unanswered language prompt sets English (\<^verbatim>\<open>en-US\<close>), and the digit
  9 at the persona prompt sets persona 2, Amira.
\<close>

theorem default_language_and_persona_witness:
  "(case handle_language_selection example_env live_world (str ''CA1'') None of
      (w', result) \<Rightarrow>
        call_sessions w' (str ''CA1'') = Some 0 \<and> language (heap w' ! 0) = str ''en-US'')
   \<and> (case handle_assistant_selection example_env live_world (str ''CA1'') (Some (str ''9'')) of
      (w', result) \<Rightarrow>
        call_sessions w' (str ''CA1'') = Some 0 \<and> assistant_id (heap w' ! 0) = 2)"
proof -
  have v: "VoiceResponse example_env" by (simp add: example_env_def)
  have wf: "wf_world live_world" by (simp add: wf_world_def live_world_def)
  have l1: "map_of (LANGUAGE_CONFIG example_env) (str ''1'')
              = Some \<lparr>code = str ''en-US'', name = str ''English'', voice = str ''alice''\<rparr>"
    by (simp add: example_env_def)
  have a2: "map_of (ASSISTANT_CONFIG example_env) (str ''2'')
              = Some \<lparr>a_id = 2, a_name = str ''Amira'', a_type = str ''B2C''\<rparr>"
    by (simp add: example_env_def str_def)
  have d1: "(None :: pystr option) = None
              \<or> (\<exists>d. None = Some d \<and> map_of (LANGUAGE_CONFIG example_env) d = None)"
    by simp
  have d2: "Some (str ''9'') = None
              \<or> (\<exists>d. Some (str ''9'') = Some d
                     \<and> map_of (ASSISTANT_CONFIG example_env) d = None)"
    by (simp add: example_env_def str_def)
  have live: "call_sessions live_world (str ''CA1'') = Some 0"
    by (simp add: live_world_def)
  have k1: "call_sessions (fst (handle_language_selection example_env live_world
                                  (str ''CA1'') None)) (str ''CA1'') = Some 0"
    using v l1 live
    by (simp add: handle_language_selection_def session_or_new_live assign_def)
  have k2: "call_sessions (fst (handle_assistant_selection example_env live_world
                                  (str ''CA1'') (Some (str ''9'')))) (str ''CA1'') = Some 0"
    using v l1 a2 live
    by (simp add: handle_assistant_selection_def session_or_new_live assign_def Let_def
          config_for_language_def split: option.splits)
  from default_language_and_persona[OF v wf l1 a2 d1 d2, of "str ''CA1''"] k1 k2
  show ?thesis by (auto split: prod.splits)
qed

text \<open>
  \<^bold>\<open>C9.\<close>  With the \<^verbatim>\<open>twilio\<close> package present and the menus holding their fallback
  entries, each of the four mid-call handlers, called with a CallSid the dict does not
  hold, answers with a document, never an exception, and leaves the CallSid bound to
  a new session built by \<^verbatim>\<open>CallSession(CallSid, "unknown")\<close>: with its language
  assigned (language selection), with language \<^verbatim>\<open>en-US\<close> and its persona assigned
  (assistant selection), or with language \<^verbatim>\<open>en-US\<close> and persona 2 (start-conversation
  and process-speech, whatever the speech result and whatever the generator does).
\<close>

theorem missing_session_is_created:
  assumes "VoiceResponse env"
      and "map_of (LANGUAGE_CONFIG env) (str ''1'') = Some english"
      and "map_of (ASSISTANT_CONFIG env) (str ''2'') = Some amira"
      and "call_sessions w sid = None"
  shows "(case handle_language_selection env w sid Digits1 of
            (w', result) \<Rightarrow>
              (\<exists>doc. result = Inr doc)
            \<and> call_sessions w' sid = Some (length (heap w))
            \<and> (\<exists>c. heap w' ! length (heap w)
                      = (new_CallSession env sid (str ''unknown''))\<lparr>language := c\<rparr>))
       \<and> (case handle_assistant_selection env w sid Digits2 of
            (w', result) \<Rightarrow>
              (\<exists>doc. result = Inr doc)
            \<and> call_sessions w' sid = Some (length (heap w))
            \<and> (\<exists>a. heap w' ! length (heap w)
                      = (new_CallSession env sid (str ''unknown''))
                          \<lparr>language := str ''en-US'', assistant_id := a\<rparr>))
       \<and> (case start_conversation env w sid of
            (w', result) \<Rightarrow>
              (\<exists>doc. result = Inr doc)
            \<and> call_sessions w' sid = Some (length (heap w))
            \<and> heap w' ! length (heap w)
                 = (new_CallSession env sid (str ''unknown''))
                     \<lparr>language := str ''en-US'', assistant_id := 2\<rparr>)
       \<and> (case process_speech env w sid SpeechResult of
            (w', result) \<Rightarrow>
              (\<exists>doc. result = Inr doc)
            \<and> call_sessions w' sid = Some (length (heap w))
            \<and> heap w' ! length (heap w)
                 = (new_CallSession env sid (str ''unknown''))
                     \<lparr>language := str ''en-US'', assistant_id := 2\<rparr>)"
proof (intro conjI)
  show "case handle_language_selection env w sid Digits1 of
            (w', result) \<Rightarrow>
              (\<exists>doc. result = Inr doc)
            \<and> call_sessions w' sid = Some (length (heap w))
            \<and> (\<exists>c. heap w' ! length (heap w)
                      = (new_CallSession env sid (str ''unknown''))\<lparr>language := c\<rparr>)"
    using assms(1,2,4)
    by (auto simp: handle_language_selection_def session_or_new_missing assign_def Let_def)
next
  obtain lang where
    "config_for_language (LANGUAGE_CONFIG env) (str ''en-US'') (Some english) = Some lang"
    using config_for_language_Some by blast
  with assms show "case handle_assistant_selection env w sid Digits2 of
            (w', result) \<Rightarrow>
              (\<exists>doc. result = Inr doc)
            \<and> call_sessions w' sid = Some (length (heap w))
            \<and> (\<exists>a. heap w' ! length (heap w)
                      = (new_CallSession env sid (str ''unknown''))
                          \<lparr>language := str ''en-US'', assistant_id := a\<rparr>)"
    by (auto simp: handle_assistant_selection_def session_or_new_missing assign_def Let_def)
next
  obtain lang where
    l: "config_for_language (LANGUAGE_CONFIG env) (str ''en-US'') (Some english) = Some lang"
    using config_for_language_Some by blast
  with assms show "case start_conversation env w sid of
            (w', result) \<Rightarrow>
              (\<exists>doc. result = Inr doc)
            \<and> call_sessions w' sid = Some (length (heap w))
            \<and> heap w' ! length (heap w)
                 = (new_CallSession env sid (str ''unknown''))
                     \<lparr>language := str ''en-US'', assistant_id := 2\<rparr>"
    by (simp add: start_conversation_def session_or_new_missing Let_def)
  from l assms show "case process_speech env w sid SpeechResult of
            (w', result) \<Rightarrow>
              (\<exists>doc. result = Inr doc)
            \<and> call_sessions w' sid = Some (length (heap w))
            \<and> heap w' ! length (heap w)
                 = (new_CallSession env sid (str ''unknown''))
                     \<lparr>language := str ''en-US'', assistant_id := 2\<rparr>"
    by (simp add: process_speech_def session_or_new_missing Let_def split: sum.splits)
qed


text \<open>The theorem in the empty world, for the call \<^verbatim>\<open>CA1\<close>.\<close>

theorem missing_session_is_created_witness:
  "(case handle_language_selection example_env empty_world (str ''CA1'') (Some (str ''3'')) of
      (w', result) \<Rightarrow>
        (\<exists>doc. result = Inr doc) \<and> call_sessions w' (str ''CA1'') = Some 0
      \<and> caller_phone (heap w' ! 0) = str ''unknown'')
   \<and> (case handle_assistant_selection example_env empty_world (str ''CA1'') None of
      (w', result) \<Rightarrow>
        (\<exists>doc. result = Inr doc) \<and> call_sessions w' (str ''CA1'') = Some 0
      \<and> language (heap w' ! 0) = str ''en-US'')
   \<and> (case start_conversation example_env empty_world (str ''CA1'') of
      (w', result) \<Rightarrow>
        (\<exists>doc. result = Inr doc) \<and> call_sessions w' (str ''CA1'') = Some 0
      \<and> language (heap w' ! 0) = str ''en-US'' \<and> assistant_id (heap w' ! 0) = 2)
   \<and> (case process_speech example_env empty_world (str ''CA1'') (Some (str ''hello'')) of
      (w', result) \<Rightarrow>
        (\<exists>doc. result = Inr doc) \<and> call_sessions w' (str ''CA1'') = Some 0
      \<and> language (heap w' ! 0) = str ''en-US'' \<and> assistant_id (heap w' ! 0) = 2)"
proof -
  have v: "VoiceResponse example_env" by (simp add: example_env_def)
  have l1: "map_of (LANGUAGE_CONFIG example_env) (str ''1'')
              = Some \<lparr>code = str ''en-US'', name = str ''English'', voice = str ''alice''\<rparr>"
    by (simp add: example_env_def)
  have a2: "map_of (ASSISTANT_CONFIG example_env) (str ''2'')
              = Some \<lparr>a_id = 2, a_name = str ''Amira'', a_type = str ''B2C''\<rparr>"
    by (simp add: example_env_def str_def)
  have none: "call_sessions empty_world (str ''CA1'') = None"
    by (simp add: empty_world_def)
  have h: "length (heap empty_world) = 0" by (simp add: empty_world_def)
  have p: "caller_phone (new_CallSession example_env (str ''CA1'') (str ''unknown''))
             = str ''unknown''" by (simp add: example_env_def)
  from missing_session_is_created[OF v l1 a2 none,
         of "Some (str ''3'')" None "Some (str ''hello'')"]
  show ?thesis unfolding h using p by (auto split: prod.splits)
qed

section \<open>Properties of the call flow\<close>

lemma route_process_speech:
  "route env w sid (str ''/api/twilio/process-speech'') f
     = Some (process_speech env w sid (SpeechResult_field f))"
  by (simp add: route_def str_def)

lemma route_start_conversation:
  "route env w sid (str ''/api/twilio/start-conversation'') f
     = Some (start_conversation env w sid)"
  by (simp add: route_def str_def)

lemma process_speech_empty:
  assumes "VoiceResponse env" and "wf_world w"
      and "map_of (LANGUAGE_CONFIG env) (str ''1'') = Some english"
      and "SpeechResult = None \<or> SpeechResult = Some []"
  shows "\<exists>w1 v. process_speech env w sid SpeechResult =
           (w1, Inr [Say (str ''I didn't hear anything. Please try again.'') v,
                     Redirect (str ''/api/twilio/start-conversation'')])
         \<and> wf_world w1"
proof -
  obtain w1 r where s:
    "session_or_new env w sid (\<lambda>s. s\<lparr>language := str ''en-US'', assistant_id := 2\<rparr>) = (w1, r)"
    by fastforce
  from session_or_new_bound[OF assms(2) s] have wf: "wf_world w1" by simp
  obtain lang where
    "config_for_language (LANGUAGE_CONFIG env) (language (heap w1 ! r)) (Some english) = Some lang"
    using config_for_language_Some by blast
  with assms(1,3,4) s wf show ?thesis
    by (auto simp: process_speech_def Let_def)
qed

lemma start_conversation_doc:
  assumes "VoiceResponse env" and "wf_world w"
      and "map_of (LANGUAGE_CONFIG env) (str ''1'') = Some english"
  shows "\<exists>w1 l v. start_conversation env w sid =
           (w1, Inr [Gather (gather_speech l) [],
                     Say (str ''I didn't hear anything. Goodbye!'') v, Hangup])
         \<and> wf_world w1"
proof -
  obtain w1 r where s:
    "session_or_new env w sid (\<lambda>s. s\<lparr>language := str ''en-US'', assistant_id := 2\<rparr>) = (w1, r)"
    by fastforce
  from session_or_new_bound[OF assms(2) s] have wf: "wf_world w1" by simp
  obtain lang where
    "config_for_language (LANGUAGE_CONFIG env) (language (heap w1 ! r)) (Some english) = Some lang"
    using config_for_language_Some by blast
  with assms(1,3) s wf show ?thesis
    by (auto simp: start_conversation_def Let_def)
qed

lemma action_gather_speech: "action (gather_speech l) = str ''/api/twilio/process-speech''"
  by (simp add: gather_speech_def)


lemma reprompt_round:
  assumes "VoiceResponse env" and "wf_world w"
      and "map_of (LANGUAGE_CONFIG env) (str ''1'') = Some english"
  shows "\<exists>w2. wf_world w2
     \<and> call_flow (Suc (Suc n)) env w sid (str ''/api/twilio/process-speech'')
          \<lparr>Digits_field = None, SpeechResult_field = Some []\<rparr> []
        = (w2, [str ''I didn't hear anything. Please try again.''], AwaitingInput)
     \<and> call_flow (Suc (Suc n)) env w sid (str ''/api/twilio/process-speech'')
          \<lparr>Digits_field = None, SpeechResult_field = Some []\<rparr> (Silence # ins)
        = (w2, [str ''I didn't hear anything. Please try again.'',
                str ''I didn't hear anything. Goodbye!''], Hungup)
     \<and> call_flow (Suc (Suc n)) env w sid (str ''/api/twilio/process-speech'')
          \<lparr>Digits_field = None, SpeechResult_field = Some []\<rparr> (Spoke s # ins)
        = (case call_flow n env w2 sid (str ''/api/twilio/process-speech'')
                  \<lparr>Digits_field = None, SpeechResult_field = Some s\<rparr> ins of
             (w3, said, st) \<Rightarrow>
               (w3, str ''I didn't hear anything. Please try again.'' # said, st))"
proof -
  from process_speech_empty[OF assms, of "Some []" sid] obtain w1 v where
    p: "process_speech env w sid (Some []) =
          (w1, Inr [Say (str ''I didn't hear anything. Please try again.'') v,
                    Redirect (str ''/api/twilio/start-conversation'')])"
    and wf1: "wf_world w1" by auto
  from start_conversation_doc[OF assms(1) wf1 assms(3), of sid] obtain w2 l v' where
    q: "start_conversation env w1 sid =
          (w2, Inr [Gather (gather_speech l) [],
                    Say (str ''I didn't hear anything. Goodbye!'') v', Hangup])"
    and wf2: "wf_world w2" by auto
  show ?thesis
    by (rule exI[of _ w2])
       (simp add: wf2 route_process_speech route_start_conversation p q
          action_gather_speech)
qed

lemma example_env_ready:
  "VoiceResponse example_env"
  "map_of (LANGUAGE_CONFIG example_env) (str ''1'')
     = Some \<lparr>code = str ''en-US'', name = str ''English'', voice = str ''alice''\<rparr>"
  "map_of (ASSISTANT_CONFIG example_env) (str ''2'')
     = Some \<lparr>a_id = 2, a_name = str ''Amira'', a_type = str ''B2C''\<rparr>"
  by (simp_all add: example_env_def str_def)

lemma wf_live_world: "wf_world live_world"
  by (simp add: wf_world_def live_world_def)

lemma wf_empty_world: "wf_world empty_world"
  by (simp add: wf_world_def empty_world_def)

text \<open>
  \<^bold>\<open>C5, as stated, fails.\<close>  The claim has a second consecutive empty input end the
  call.  At a live session, an empty speech result posted to \<^verbatim>\<open>process-speech\<close> is
  re-prompted and the caller is sent back to the gather of \<^verbatim>\<open>start-conversation\<close>;
  when that gather in turn posts an empty speech result, the second empty input in a
  row, the same branch of \<open>process_speech\<close> runs again: the caller hears the re-prompt
  a second time and the call is waiting for input, not hung up.
\<close>

theorem second_empty_speech_is_reprompted:
  "snd (call_flow 4 example_env live_world (str ''CA1'') (str ''/api/twilio/process-speech'')
          \<lparr>Digits_field = None, SpeechResult_field = Some []\<rparr> [Spoke []])
     = ([str ''I didn't hear anything. Please try again.'',
         str ''I didn't hear anything. Please try again.''], AwaitingInput)"
proof -
  from reprompt_round[OF example_env_ready(1) wf_live_world example_env_ready(2),
         of "Suc (Suc 0)" "str ''CA1''" "[]" "[]"]
  obtain w2 where wf2: "wf_world w2" and
    first: "call_flow (Suc (Suc (Suc (Suc 0)))) example_env live_world (str ''CA1'')
              (str ''/api/twilio/process-speech'')
              \<lparr>Digits_field = None, SpeechResult_field = Some []\<rparr> [Spoke []]
            = (case call_flow (Suc (Suc 0)) example_env w2 (str ''CA1'')
                      (str ''/api/twilio/process-speech'')
                      \<lparr>Digits_field = None, SpeechResult_field = Some []\<rparr> [] of
                 (w3, said, st) \<Rightarrow>
                   (w3, str ''I didn't hear anything. Please try again.'' # said, st))"
    by blast
  from reprompt_round[OF example_env_ready(1) wf2 example_env_ready(2), of 0 "str ''CA1''"]
  obtain w3 where
    second: "call_flow (Suc (Suc 0)) example_env w2 (str ''CA1'')
               (str ''/api/twilio/process-speech'')
               \<lparr>Digits_field = None, SpeechResult_field = Some []\<rparr> []
             = (w3, [str ''I didn't hear anything. Please try again.''], AwaitingInput)"
    by blast
  have f4: "(4 :: nat) = Suc (Suc (Suc (Suc 0)))" by simp
  show ?thesis unfolding f4 first second by simp
qed

text \<open>
  \<^bold>\<open>C5, amended.\<close>  With the \<^verbatim>\<open>twilio\<close> package present and \<^verbatim>\<open>LANGUAGE_CONFIG["1"]\<close>
  in the menu, from any world: an empty speech result posted to \<^verbatim>\<open>process-speech\<close> is
  answered with one re-prompt and a redirect to \<^verbatim>\<open>start-conversation\<close>, which gathers
  speech again; when that gather times out, the call ends with the goodbye and a
  hangup.  The handlers keep no count of retries: when the gather posts an empty
  speech result instead, it is re-prompted again, so \<open>n\<close> further empty results in a
  row are answered with \<open>n\<close> further re-prompts and the call still waits for input.
  Fuel: two requests per round are enough, and more change nothing.
\<close>

theorem empty_speech_reprompts_every_time:
  assumes "VoiceResponse env" and "wf_world w"
      and "map_of (LANGUAGE_CONFIG env) (str ''1'') = Some english"
  shows "snd (call_flow (Suc (Suc k)) env w sid (str ''/api/twilio/process-speech'')
                \<lparr>Digits_field = None, SpeechResult_field = Some []\<rparr> [Silence])
           = ([str ''I didn't hear anything. Please try again.'',
               str ''I didn't hear anything. Goodbye!''], Hungup)
       \<and> snd (call_flow (Suc (Suc (2 * n + k))) env w sid (str ''/api/twilio/process-speech'')
                \<lparr>Digits_field = None, SpeechResult_field = Some []\<rparr>
                (replicate n (Spoke [])))
           = (replicate (Suc n) (str ''I didn't hear anything. Please try again.''),
              AwaitingInput)"
proof
  from reprompt_round[OF assms, of k sid "[]"] obtain w2 where
    eq: "call_flow (Suc (Suc k)) env w sid (str ''/api/twilio/process-speech'')
           \<lparr>Digits_field = None, SpeechResult_field = Some []\<rparr> [Silence]
         = (w2, [str ''I didn't hear anything. Please try again.'',
                 str ''I didn't hear anything. Goodbye!''], Hungup)"
    by blast
  show "snd (call_flow (Suc (Suc k)) env w sid (str ''/api/twilio/process-speech'')
                \<lparr>Digits_field = None, SpeechResult_field = Some []\<rparr> [Silence])
           = ([str ''I didn't hear anything. Please try again.'',
               str ''I didn't hear anything. Goodbye!''], Hungup)"
    unfolding eq by simp
next
  from assms(2)
  show "snd (call_flow (Suc (Suc (2 * n + k))) env w sid (str ''/api/twilio/process-speech'')
                \<lparr>Digits_field = None, SpeechResult_field = Some []\<rparr>
                (replicate n (Spoke [])))
           = (replicate (Suc n) (str ''I didn't hear anything. Please try again.''),
              AwaitingInput)"
  proof (induction n arbitrary: w)
    case 0
    from reprompt_round[OF assms(1) 0 assms(3), of k sid] obtain w2 where
      eq: "call_flow (Suc (Suc k)) env w sid (str ''/api/twilio/process-speech'')
             \<lparr>Digits_field = None, SpeechResult_field = Some []\<rparr> []
           = (w2, [str ''I didn't hear anything. Please try again.''], AwaitingInput)"
      by blast
    show ?case by (simp only: mult_0_right add_0 eq snd_conv replicate.simps)
  next
    case (Suc n)
    from reprompt_round[OF assms(1) Suc.prems assms(3), of "Suc (Suc (2 * n + k))" sid
           "replicate n (Spoke [])" "[]"]
    obtain w2 where wf2: "wf_world w2" and
      step: "call_flow (Suc (Suc (Suc (Suc (2 * n + k))))) env w sid
               (str ''/api/twilio/process-speech'')
               \<lparr>Digits_field = None, SpeechResult_field = Some []\<rparr>
               (Spoke [] # replicate n (Spoke []))
             = (case call_flow (Suc (Suc (2 * n + k))) env w2 sid
                       (str ''/api/twilio/process-speech'')
                       \<lparr>Digits_field = None, SpeechResult_field = Some []\<rparr>
                       (replicate n (Spoke [])) of
                  (w3, said, st) \<Rightarrow>
                    (w3, str ''I didn't hear anything. Please try again.'' # said, st))"
      by blast
    obtain w3 said st where inner:
      "call_flow (Suc (Suc (2 * n + k))) env w2 sid (str ''/api/twilio/process-speech'')
         \<lparr>Digits_field = None, SpeechResult_field = Some []\<rparr> (replicate n (Spoke []))
       = (w3, said, st)"
      using prod_cases3 by blast
    from Suc.IH[OF wf2] have ih:
      "(said, st) = (replicate (Suc n) (str ''I didn't hear anything. Please try again.''),
                     AwaitingInput)"
      unfolding inner by simp
    have fuel: "Suc (Suc (2 * Suc n + k)) = Suc (Suc (Suc (Suc (2 * n + k))))" by simp
    show ?case
      unfolding fuel replicate_Suc step inner using ih by simp
  qed
qed


text \<open>The theorem at a live session: one round, and three empty results in a row.\<close>

theorem empty_speech_reprompts_every_time_witness:
  "snd (call_flow 2 example_env live_world (str ''CA1'') (str ''/api/twilio/process-speech'')
          \<lparr>Digits_field = None, SpeechResult_field = Some []\<rparr> [Silence])
     = ([str ''I didn't hear anything. Please try again.'',
         str ''I didn't hear anything. Goodbye!''], Hungup)
   \<and> snd (call_flow 6 example_env live_world (str ''CA1'') (str ''/api/twilio/process-speech'')
          \<lparr>Digits_field = None, SpeechResult_field = Some []\<rparr> [Spoke [], Spoke []])
     = ([str ''I didn't hear anything. Please try again.'',
         str ''I didn't hear anything. Please try again.'',
         str ''I didn't hear anything. Please try again.''], AwaitingInput)"
proof -
  have a: "Suc (Suc 0) = 2" and b: "Suc (Suc (2 * 2 + 0)) = 6" by simp_all
  have c: "replicate 2 (Spoke []) = [Spoke [], Spoke []]"
    by (simp add: numeral_2_eq_2)
  have d: "replicate (Suc 2) x = [x, x, x]" for x :: pystr
    by (simp add: numeral_2_eq_2)
  from empty_speech_reprompts_every_time[OF example_env_ready(1) wf_live_world
         example_env_ready(2), of 0 "str ''CA1''" 2]
  show ?thesis by (simp only: a b c d)
qed

text \<open>
  The other gathers.  After a spoken reply, a timeout of the gather ends the call at
  once, without any re-prompt.
\<close>

lemma silence_after_reply_ends_call:
  "snd (call_flow 1 example_env live_world (str ''CA1'') (str ''/api/twilio/process-speech'')
          \<lparr>Digits_field = None, SpeechResult_field = Some (str ''my bill'')\<rparr> [Silence])
     = ([str ''Sure.'', str ''Is there anything else I can help you with?'',
         str ''Thank you for calling Ooredoo. Goodbye!''], Hungup)"
proof -
  have live: "call_sessions live_world (str ''CA1'') = Some 0" by (simp add: live_world_def)
  have nonempty: "str ''my bill'' \<noteq> []" by (simp add: str_def)
  have doc: "snd (process_speech example_env live_world (str ''CA1'') (Some (str ''my bill'')))
       = Inr [Say (str ''Sure.'') (str ''alice''),
              Gather (gather_speech (str ''fr-FR''))
                [(str ''Is there anything else I can help you with?'', str ''alice'')],
              Say (str ''Thank you for calling Ooredoo. Goodbye!'') (str ''alice''),
              Hangup]"
    using live nonempty
    by (simp add: process_speech_def session_or_new_live Let_def config_for_language_def
          example_env_def live_world_def str_def)
  then obtain w1 where "process_speech example_env live_world (str ''CA1'') (Some (str ''my bill''))
       = (w1, Inr [Say (str ''Sure.'') (str ''alice''),
              Gather (gather_speech (str ''fr-FR''))
                [(str ''Is there anything else I can help you with?'', str ''alice'')],
              Say (str ''Thank you for calling Ooredoo. Goodbye!'') (str ''alice''),
              Hangup])"
    by (metis prod.collapse)
  then show ?thesis by (simp add: route_process_speech)
qed

text \<open>
  Timeouts only: the gather after the persona selection times out, the caller is
  re-prompted and sent to \<^verbatim>\<open>start-conversation\<close>, and a second timeout ends the call.
\<close>

lemma route_assistant_selection:
  "route env w sid (str ''/api/twilio/assistant-selection'') f
     = Some (handle_assistant_selection env w sid (Digits_field f))"
  by (simp add: route_def str_def)

lemma two_timeouts_after_persona_end_call:
  "snd (call_flow 2 example_env live_world (str ''CA1'')
          (str ''/api/twilio/assistant-selection'')
          \<lparr>Digits_field = Some (str ''2''), SpeechResult_field = None\<rparr> [Silence, Silence])
     = ([str ''You're now connected with Amira. How can I help you today?'',
         str ''I didn't hear anything. Please try again.'',
         str ''I didn't hear anything. Goodbye!''], Hungup)"
proof -
  have live: "call_sessions live_world (str ''CA1'') = Some 0" by (simp add: live_world_def)
  obtain w1 where a: "handle_assistant_selection example_env live_world (str ''CA1'')
        (Some (str ''2''))
       = (w1, Inr [Say (str ''You're now connected with Amira. How can I help you today?'')
                     (str ''alice''),
                   Gather (gather_speech (str ''fr-FR'')) [],
                   Say (str ''I didn't hear anything. Please try again.'') (str ''alice''),
                   Redirect (str ''/api/twilio/start-conversation'')])"
    and wf1: "wf_world w1"
    using live
    by (simp add: handle_assistant_selection_def session_or_new_live Let_def
          config_for_language_def assign_def wf_world_def
          example_env_def live_world_def str_def)
  from start_conversation_doc[OF example_env_ready(1) wf1 example_env_ready(2), of "str ''CA1''"]
  obtain w2 l v where b: "start_conversation example_env w1 (str ''CA1'') =
           (w2, Inr [Gather (gather_speech l) [],
                     Say (str ''I didn't hear anything. Goodbye!'') v, Hangup])"
    by blast
  have f2: "(2 :: nat) = Suc (Suc 0)" by simp
  show ?thesis
    unfolding f2 by (simp add: route_assistant_selection route_start_conversation a b)
qed

section \<open>Properties of the voice pipeline\<close>

subsection \<open>The context builder\<close>

lemma turn_of_either_shape:
  assumes "either_shape item"
  shows "\<exists>user_msg ai_msg. get_user item = Inr user_msg \<and> get_ai item = Inr ai_msg
           \<and> str ''User: '' @ format user_msg @ [10] @ str ''AI: '' @ format ai_msg @ [10]
               = turn_lines item"
proof (cases item)
  case (TurnObject u a)
  with assms show ?thesis
    by (auto simp: turn_lines_def user_field_def ai_field_def field_text_def)
next
  case (TurnDict d)
  then show ?thesis
    by (auto simp: turn_lines_def user_field_def ai_field_def field_text_def
             split: option.splits)
qed

lemma turn_of_no_shape:
  assumes "\<not> either_shape item"
  shows "get_user item = Inl AttributeError
           \<or> (\<exists>user_msg. get_user item = Inr user_msg \<and> get_ai item = Inl AttributeError)"
  using assms by (cases item) (auto split: option.splits)

lemma add_turns_of_either_shape:
  "\<forall>item\<in>set turns. either_shape item
     \<Longrightarrow> add_turns turns c = Inr (c @ concat (map turn_lines turns))"
proof (induction turns arbitrary: c)
  case Nil
  then show ?case by simp
next
  case (Cons turn turns)
  from Cons.prems have "either_shape turn" by simp
  from turn_of_either_shape[OF this] obtain user_msg ai_msg where
    t: "get_user turn = Inr user_msg" "get_ai turn = Inr ai_msg"
       "str ''User: '' @ format user_msg @ [10] @ str ''AI: '' @ format ai_msg @ [10]
          = turn_lines turn"
    by blast
  from Cons.prems have rest: "\<forall>item\<in>set turns. either_shape item" by simp
  have "add_turns (turn # turns) c
          = add_turns turns
              (c @ str ''User: '' @ format user_msg @ [10] @ str ''AI: '' @ format ai_msg @ [10])"
    by (simp add: t(1,2))
  also have "\<dots> = add_turns turns (c @ turn_lines turn)" by (simp only: t(3))
  also have "\<dots> = Inr ((c @ turn_lines turn) @ concat (map turn_lines turns))"
    by (rule Cons.IH[OF rest])
  finally show ?case by simp
qed

lemma add_turns_of_no_shape:
  "\<exists>item\<in>set turns. \<not> either_shape item \<Longrightarrow> add_turns turns c = Inl AttributeError"
proof (induction turns arbitrary: c)
  case Nil
  then show ?case by simp
next
  case (Cons turn turns)
  show ?case
  proof (cases "either_shape turn")
    case True
    from turn_of_either_shape[OF this] obtain user_msg ai_msg where
      t: "get_user turn = Inr user_msg" "get_ai turn = Inr ai_msg" by blast
    from True Cons.prems have "\<exists>item\<in>set turns. \<not> either_shape item" by auto
    from Cons.IH[OF this] show ?thesis by (simp add: t)
  next
    case False
    from turn_of_no_shape[OF this] show ?thesis by auto
  qed
qed

lemma build_context_cases:
  "build_context history_items message =
     (if history_items = [] then Inr message
      else if \<forall>item\<in>set (last10 history_items). either_shape item
      then Inr (context_of_turns (last10 history_items) message)
      else Inl AttributeError)"
proof (cases "history_items = []")
  case True
  then show ?thesis by (simp add: build_context_def)
next
  case False
  show ?thesis
  proof (cases "\<forall>item\<in>set (last10 history_items). either_shape item")
    case True
    from add_turns_of_either_shape[OF this] False True show ?thesis
      by (simp add: build_context_def context_of_turns_def)
  next
    case no: False
    then have "\<exists>item\<in>set (last10 history_items). \<not> either_shape item" by blast
    from add_turns_of_no_shape[OF this] False no show ?thesis
      by (simp add: build_context_def)
  qed
qed

lemma build_context_ok:
  assumes "\<forall>item\<in>set (last10 history_items). either_shape item"
  shows "\<exists>context. build_context history_items message = Inr context"
  using assms by (simp add: build_context_cases)

text \<open>
  \<^bold>\<open>C10, as the code has it.\<close>  For every history and every message the builder does
  exactly this.  With no history the context is the message itself.  Otherwise only
  the last ten items are read.  When each of them is of either shape (an object
  exposing both attributes \<^verbatim>\<open>user\<close> and \<^verbatim>\<open>ai\<close>, or a dict with whatever keys), the builder
  raises nothing and returns the heading, two labelled lines for each of these items
  in order, and the current message; in the lines of a dict, a key that is missing
  gives the empty string after the label.  When one of the last ten is an object that
  lacks \<^verbatim>\<open>user\<close> or \<^verbatim>\<open>ai\<close>, the builder raises \<^verbatim>\<open>AttributeError\<close>.
\<close>

theorem build_context_by_shape:
  "build_context history_items message =
     (if history_items = [] then Inr message
      else if \<forall>item\<in>set (last10 history_items). either_shape item
      then Inr (str ''Previous conversation:'' @ [10]
                @ concat (map turn_lines (last10 history_items))
                @ [10] @ str ''Current user message: '' @ message @ [10])
      else Inl AttributeError)
   \<and> (\<forall>d. turn_lines (TurnDict d) =
            str ''User: ''
              @ (case map_of d (str ''user'') of Some v \<Rightarrow> format v | None \<Rightarrow> [])
              @ [10] @ str ''AI: ''
              @ (case map_of d (str ''ai'') of Some v \<Rightarrow> format v | None \<Rightarrow> [])
              @ [10])
   \<and> (\<forall>u a. turn_lines (TurnObject (Some u) (Some a)) =
            str ''User: '' @ format u @ [10] @ str ''AI: '' @ format a @ [10])"
proof (intro conjI allI)
  show "build_context history_items message =
     (if history_items = [] then Inr message
      else if \<forall>item\<in>set (last10 history_items). either_shape item
      then Inr (str ''Previous conversation:'' @ [10]
                @ concat (map turn_lines (last10 history_items))
                @ [10] @ str ''Current user message: '' @ message @ [10])
      else Inl AttributeError)"
    using build_context_cases[of history_items message]
    by (simp only: context_of_turns_def)
next
  fix d
  show "turn_lines (TurnDict d) =
            str ''User: ''
              @ (case map_of d (str ''user'') of Some v \<Rightarrow> format v | None \<Rightarrow> [])
              @ [10] @ str ''AI: ''
              @ (case map_of d (str ''ai'') of Some v \<Rightarrow> format v | None \<Rightarrow> [])
              @ [10]"
    by (simp add: turn_lines_def user_field_def ai_field_def field_text_def)
next
  fix u a
  show "turn_lines (TurnObject (Some u) (Some a)) =
            str ''User: '' @ format u @ [10] @ str ''AI: '' @ format a @ [10]"
    by (simp add: turn_lines_def user_field_def ai_field_def field_text_def)
qed

text \<open>
  The theorem at a history of an object, a dict without the key \<^verbatim>\<open>ai\<close>, and an empty
  dict: every item is of either shape, and the context holds an empty string after
  each label whose field is missing.
\<close>

theorem build_context_by_shape_witness:
  "list_all either_shape
      (last10
        [TurnObject (Some (PyStr (str ''hi''))) (Some (PyStr (str ''hello''))),
         TurnDict [(str ''user'', PyStr (str ''my bill''))],
         TurnDict []])
   \<and> build_context
        [TurnObject (Some (PyStr (str ''hi''))) (Some (PyStr (str ''hello''))),
         TurnDict [(str ''user'', PyStr (str ''my bill''))],
         TurnDict []]
        (str ''now'')
     = Inr (str ''Previous conversation:'' @ [10]
            @ str ''User: hi'' @ [10] @ str ''AI: hello'' @ [10]
            @ str ''User: my bill'' @ [10] @ str ''AI: '' @ [10]
            @ str ''User: '' @ [10] @ str ''AI: '' @ [10]
            @ [10] @ str ''Current user message: now'' @ [10])"
proof -
  let ?h = "[TurnObject (Some (PyStr (str ''hi''))) (Some (PyStr (str ''hello''))),
             TurnDict [(str ''user'', PyStr (str ''my bill''))],
             TurnDict []]"
  have w: "last10 ?h = ?h" by (simp add: last10_def)
  have shapes: "\<forall>item\<in>set (last10 ?h). either_shape item" by (simp add: w)
  have lines: "concat (map turn_lines ?h)
                 = str ''User: hi'' @ [10] @ str ''AI: hello'' @ [10]
                   @ str ''User: my bill'' @ [10] @ str ''AI: '' @ [10]
                   @ str ''User: '' @ [10] @ str ''AI: '' @ [10]"
    by (simp add: turn_lines_def user_field_def ai_field_def field_text_def str_def)
  have "build_context ?h (str ''now'')
          = Inr (str ''Previous conversation:'' @ [10] @ concat (map turn_lines ?h)
                 @ [10] @ str ''Current user message: '' @ str ''now'' @ [10])"
    using build_context_by_shape[of ?h "str ''now''"] shapes by (simp add: w)
  also have "\<dots> = Inr (str ''Previous conversation:'' @ [10]
            @ str ''User: hi'' @ [10] @ str ''AI: hello'' @ [10]
            @ str ''User: my bill'' @ [10] @ str ''AI: '' @ [10]
            @ str ''User: '' @ [10] @ str ''AI: '' @ [10]
            @ [10] @ str ''Current user message: now'' @ [10])"
    unfolding lines by (simp add: str_def)
  finally show ?thesis using shapes by (simp only: list_all_iff)
qed

text \<open>
  \<^bold>\<open>C10: the input on which the claim fails.\<close>  An item that lacks the field
  \<^verbatim>\<open>user\<close> and is an object, not a mapping: \<^verbatim>\<open>hasattr\<close> fails, the fallback
  \<^verbatim>\<open>turn.get\<close> does not exist, and the builder raises where the claim promises an empty
  string; the guest turn that carries this history is answered with status 500, and
  the generator is not reached.
\<close>

theorem object_lacking_attribute_raises:
  "build_context [TurnObject None (Some (PyStr (str ''hello'')))] (str ''now'')
     = Inl AttributeError
   \<and> process_voice (voice_env_with DbAbsent (str ''Sure.'') None)
       (request_of ''now'' (Some [TurnObject None (Some (PyStr (str ''hello'')))]))
     = (Inl (HTTPException 500), [])"
  by (simp add: build_context_def last10_def process_voice_def conversation_context_def
        history_to_use_def voice_env_with_def request_of_def)

text \<open>
  Items older than the last ten are never read: an object without attributes in front
  of ten dicts does no harm.
\<close>

lemma older_items_are_not_read:
  "build_context (TurnObject None None # replicate 10 (TurnDict [])) message
     = Inr (context_of_turns (replicate 10 (TurnDict [])) message)"
  by (simp add: build_context_cases last10_def)
subsection \<open>Escalation\<close>

text \<open>
  \<^bold>\<open>C3, as the code has it.\<close>  In the authenticated pipeline
  (\<open>process_voice_with_auth\<close>), whenever one of the trigger phrases occurs in the
  lower-cased message, whatever else the message holds and whoever the user is: the
  generator is not called at all.  When the last ten history items are of either
  shape, exactly one call is made, to ticketing, with the title and the description
  of a manual request, and the turn answers with the ticket's URL or, when ticketing
  gives none, with the promise of a ticket.  When one of them is not, the turn is
  answered with status 500 and no call is made.
\<close>

theorem explicit_ticket_request_bypasses_generator:
  assumes "phrase \<in> set ticket_phrases"
      and "substr phrase (str_lower env (transcription request))"
  shows "(\<forall>c l a. GetResponse c l a
             \<notin> set (snd (process_voice_with_auth env request current_user)))
       \<and> ((\<forall>item\<in>set (last10 (history_to_use env request)). either_shape item) \<longrightarrow>
            process_voice_with_auth env request current_user
              = (Inr \<lparr>resp_transcription = transcription request,
                      aiResponse =
                        (case create_trello_card env
                                (ticket_title (str ''[MANUAL]'')
                                   (assistant_name_of (assistantId request)) current_user)
                                (ticket_description 16
                                   (str ''User explicitly asked to open a ticket.'')
                                   (session_id_of env request) (req_language request)
                                   (transcription request)) of
                           Some url \<Rightarrow>
                             if url \<noteq> [] then str ''A support ticket has been created: '' @ url
                             else str ''I'll create a support ticket for you right away.''
                         | None \<Rightarrow> str ''I'll create a support ticket for you right away.''),
                      resp_sessionId = session_id_of env request\<rparr>,
                 [CreateTrelloCard
                    (ticket_title (str ''[MANUAL]'')
                       (assistant_name_of (assistantId request)) current_user)
                    (ticket_description 16
                       (str ''User explicitly asked to open a ticket.'')
                       (session_id_of env request) (req_language request)
                       (transcription request))]))
       \<and> (\<not> (\<forall>item\<in>set (last10 (history_to_use env request)). either_shape item) \<longrightarrow>
            process_voice_with_auth env request current_user = (Inl (HTTPException 500), []))"
proof -
  from assms have trigger:
    "list_ex (\<lambda>phrase. substr phrase (str_lower env (transcription request))) ticket_phrases"
    by (auto simp: list_ex_iff)
  show ?thesis
  proof (intro conjI impI)
    show "\<forall>c l a. GetResponse c l a
             \<notin> set (snd (process_voice_with_auth env request current_user))"
      using trigger
      by (cases "conversation_context env request")
         (simp_all add: process_voice_with_auth_def Let_def)
  next
    assume "\<forall>item\<in>set (last10 (history_to_use env request)). either_shape item"
    from build_context_ok[OF this] obtain ctx where
      "conversation_context env request = Inr ctx"
      unfolding conversation_context_def by blast
    with trigger show "process_voice_with_auth env request current_user
              = (Inr \<lparr>resp_transcription = transcription request,
                      aiResponse =
                        (case create_trello_card env
                                (ticket_title (str ''[MANUAL]'')
                                   (assistant_name_of (assistantId request)) current_user)
                                (ticket_description 16
                                   (str ''User explicitly asked to open a ticket.'')
                                   (session_id_of env request) (req_language request)
                                   (transcription request)) of
                           Some url \<Rightarrow>
                             if url \<noteq> [] then str ''A support ticket has been created: '' @ url
                             else str ''I'll create a support ticket for you right away.''
                         | None \<Rightarrow> str ''I'll create a support ticket for you right away.''),
                      resp_sessionId = session_id_of env request\<rparr>,
                 [CreateTrelloCard
                    (ticket_title (str ''[MANUAL]'')
                       (assistant_name_of (assistantId request)) current_user)
                    (ticket_description 16
                       (str ''User explicitly asked to open a ticket.'')
                       (session_id_of env request) (req_language request)
                       (transcription request))])"
      by (simp add: process_voice_with_auth_def Let_def)
  next
    assume no: "\<not> (\<forall>item\<in>set (last10 (history_to_use env request)). either_shape item)"
    then have "history_to_use env request \<noteq> []" by (auto simp: last10_def)
    with no have "conversation_context env request = Inl AttributeError"
      by (simp add: conversation_context_def build_context_cases)
    then show "process_voice_with_auth env request current_user
                 = (Inl (HTTPException 500), [])"
      by (simp add: process_voice_with_auth_def Let_def)
  qed
qed

text \<open>
  The theorem at a message that asks in capitals and goes on about something else,
  from a guest of the authenticated endpoint, with no history.
\<close>

lemma open_a_ticket_lower:
  "substr (str ''open a ticket'')
     (ascii_lower (str ''Please OPEN A TICKET, my internet is slow''))"
  by (simp add: ascii_lower_def str_def)

theorem explicit_ticket_request_witness:
  "str ''open a ticket'' \<in> set ticket_phrases
   \<and> substr (str ''open a ticket'')
       (ascii_lower (str ''Please OPEN A TICKET, my internet is slow''))
   \<and> (\<forall>c l a. GetResponse c l a
         \<notin> set (snd (process_voice_with_auth
                       (voice_env_with DbAbsent (str ''unused'') (Some (str ''https://t/1'')))
                       (request_of ''Please OPEN A TICKET, my internet is slow'' None) None)))
   \<and> process_voice_with_auth
         (voice_env_with DbAbsent (str ''unused'') (Some (str ''https://t/1'')))
         (request_of ''Please OPEN A TICKET, my internet is slow'' None) None
       = (Inr \<lparr>resp_transcription = str ''Please OPEN A TICKET, my internet is slow'',
               aiResponse = str ''A support ticket has been created: https://t/1'',
               resp_sessionId = str ''s1''\<rparr>,
          [CreateTrelloCard (str ''[MANUAL] Amira - guest'')
             (ticket_description 16 (str ''User explicitly asked to open a ticket.'')
                (str ''s1'') (str ''en-US'')
                (str ''Please OPEN A TICKET, my internet is slow''))])"
proof -
  let ?env = "voice_env_with DbAbsent (str ''unused'') (Some (str ''https://t/1''))"
  let ?req = "request_of ''Please OPEN A TICKET, my internet is slow'' None"
  have p: "str ''open a ticket'' \<in> set ticket_phrases" by (simp add: ticket_phrases_def)
  have l: "substr (str ''open a ticket'') (str_lower ?env (transcription ?req))"
    using open_a_ticket_lower by (simp add: voice_env_with_def request_of_def)
  have h: "\<forall>item\<in>set (last10 (history_to_use ?env ?req)). either_shape item"
    by (simp add: history_to_use_def load_history_def voice_env_with_def request_of_def
          last10_def)
  have t: "create_trello_card ?env title description = Some (str ''https://t/1'')"
    for title description by (simp add: voice_env_with_def)
  have u: "str ''https://t/1'' \<noteq> []" by (simp add: str_def)
  have j: "str ''A support ticket has been created: '' @ str ''https://t/1''
             = str ''A support ticket has been created: https://t/1''"
    by (simp add: str_def)
  have n: "ticket_title (str ''[MANUAL]'') (assistant_name_of (assistantId ?req)) None
             = str ''[MANUAL] Amira - guest''"
    by (simp add: ticket_title_def assistant_name_of_def request_of_def str_def)
  have s: "session_id_of ?env ?req = str ''s1''"
    by (simp add: session_id_of_def request_of_def str_def)
  have f: "transcription ?req = str ''Please OPEN A TICKET, my internet is slow''"
          "req_language ?req = str ''en-US''"
    by (simp_all add: request_of_def)
  from explicit_ticket_request_bypasses_generator[OF p l, of None] h
  have no_gen: "\<forall>c l a. GetResponse c l a \<notin> set (snd (process_voice_with_auth ?env ?req None))"
    and turn: "process_voice_with_auth ?env ?req None
              = (Inr \<lparr>resp_transcription = transcription ?req,
                      aiResponse =
                        (case create_trello_card ?env
                                (ticket_title (str ''[MANUAL]'')
                                   (assistant_name_of (assistantId ?req)) None)
                                (ticket_description 16
                                   (str ''User explicitly asked to open a ticket.'')
                                   (session_id_of ?env ?req) (req_language ?req)
                                   (transcription ?req)) of
                           Some url \<Rightarrow>
                             if url \<noteq> [] then str ''A support ticket has been created: '' @ url
                             else str ''I'll create a support ticket for you right away.''
                         | None \<Rightarrow> str ''I'll create a support ticket for you right away.''),
                      resp_sessionId = session_id_of ?env ?req\<rparr>,
                 [CreateTrelloCard
                    (ticket_title (str ''[MANUAL]'')
                       (assistant_name_of (assistantId ?req)) None)
                    (ticket_description 16
                       (str ''User explicitly asked to open a ticket.'')
                       (session_id_of ?env ?req) (req_language ?req)
                       (transcription ?req))])"
    by blast+
  from turn have turn':
    "process_voice_with_auth ?env ?req None
       = (Inr \<lparr>resp_transcription = str ''Please OPEN A TICKET, my internet is slow'',
               aiResponse = str ''A support ticket has been created: https://t/1'',
               resp_sessionId = str ''s1''\<rparr>,
          [CreateTrelloCard (str ''[MANUAL] Amira - guest'')
             (ticket_description 16 (str ''User explicitly asked to open a ticket.'')
                (str ''s1'') (str ''en-US'')
                (str ''Please OPEN A TICKET, my internet is slow''))])"
    by (simp only: t option.case u not_False_eq_True if_True j n s f)
  from p open_a_ticket_lower no_gen turn' show ?thesis by blast
qed

text \<open>
  \<^bold>\<open>C3: the input on which the claim fails.\<close>  The claim speaks of every inbound
  message.  The same words sent to the guest pipeline (\<open>process_voice\<close>) hold a trigger
  phrase, and yet the one call made is to the generator, with the message as its
  context; the turn answers with the generator's reply, and ticketing, which would
  have given a URL, is not called.
\<close>

theorem guest_ticket_request_reaches_generator:
  "str ''open a ticket'' \<in> set ticket_phrases
   \<and> substr (str ''open a ticket'') (ascii_lower (str ''open a ticket''))
   \<and> process_voice (voice_env_with DbAbsent (str ''Sure.'') (Some (str ''https://t/1'')))
         (request_of ''open a ticket'' None)
       = (Inr \<lparr>resp_transcription = str ''open a ticket'', aiResponse = str ''Sure.'',
               resp_sessionId = str ''s1''\<rparr>,
          [GetResponse (str ''open a ticket'') (str ''en-US'') (str ''Amira'')])"
proof (intro conjI)
  show "str ''open a ticket'' \<in> set ticket_phrases" by (simp add: ticket_phrases_def)
  show "substr (str ''open a ticket'') (ascii_lower (str ''open a ticket''))"
    by (simp add: ascii_lower_def str_def)
  have s: "session_id_of (voice_env_with DbAbsent (str ''Sure.'') (Some (str ''https://t/1'')))
             (request_of ''open a ticket'' None) = str ''s1''"
    by (simp add: session_id_of_def request_of_def str_def)
  show "process_voice (voice_env_with DbAbsent (str ''Sure.'') (Some (str ''https://t/1'')))
         (request_of ''open a ticket'' None)
       = (Inr \<lparr>resp_transcription = str ''open a ticket'', aiResponse = str ''Sure.'',
               resp_sessionId = str ''s1''\<rparr>,
          [GetResponse (str ''open a ticket'') (str ''en-US'') (str ''Amira'')])"
    unfolding process_voice_def s
    by (simp add: conversation_context_def history_to_use_def
          load_history_def build_context_def voice_env_with_def request_of_def
          assistant_name_of_def)
qed

text \<open>
  The telephony handler has no such check either, and no ticketing to call: the
  caller who says the words hears the generator's reply.
\<close>

lemma telephony_ticket_request_reaches_generator:
  "snd (process_speech example_env live_world (str ''CA1'') (Some (str ''open a ticket'')))
     = Inr [Say (str ''Sure.'') (str ''alice''),
            Gather (gather_speech (str ''fr-FR''))
              [(str ''Is there anything else I can help you with?'', str ''alice'')],
            Say (str ''Thank you for calling Ooredoo. Goodbye!'') (str ''alice''),
            Hangup]"
proof -
  have live: "call_sessions live_world (str ''CA1'') = Some 0" by (simp add: live_world_def)
  have nonempty: "str ''open a ticket'' \<noteq> []" by (simp add: str_def)
  show ?thesis
    using live nonempty
    by (simp add: process_speech_def session_or_new_live Let_def config_for_language_def
          example_env_def live_world_def str_def)
qed
text \<open>
  The fallback after generation.  When no trigger phrase occurs and the generator's
  reply is empty or holds the failure phrase, ticketing is called; the turn answers
  with the apology and the ticket's URL when there is one, and with the generator's
  own reply when there is none.
\<close>

lemma fallback_is_attempted:
  assumes "conversation_context env request = Inr ctx"
      and "\<not> list_ex (\<lambda>phrase. substr phrase (str_lower env (transcription request)))
                ticket_phrases"
      and "get_response env ctx (req_language request)
             (assistant_name_of (assistantId request)) = Inr reply"
      and "reply = [] \<or> substr (str ''technical difficulties'') (str_lower env reply)"
  shows "\<exists>title description response.
           process_voice_with_auth env request current_user
             = (Inr response,
                [GetResponse ctx (req_language request)
                   (assistant_name_of (assistantId request)),
                 CreateTrelloCard title description])
         \<and> aiResponse response =
             (case create_trello_card env title description of
                Some url \<Rightarrow>
                  if url \<noteq> []
                  then str ''I'm having technical issues. A support ticket was created: '' @ url
                  else reply
              | None \<Rightarrow> reply)"
  using assms by (auto simp: process_voice_with_auth_def Let_def)

lemma hello_has_no_trigger:
  "\<not> list_ex (\<lambda>phrase. substr phrase (ascii_lower (str ''hello''))) ticket_phrases"
  by (simp add: ticket_phrases_def ascii_lower_def str_def)

text \<open>
  \<^bold>\<open>C2: the code at the failing input.\<close>  The generator returns the empty string
  and ticketing returns \<^verbatim>\<open>None\<close>.  The fallback is attempted, as the claim says, but
  the branch has no \<^verbatim>\<open>else\<close>: the reply stays as the generator left it, and the turn
  returns the empty string where the claim promises a non-empty apology.
\<close>

theorem empty_reply_and_no_ticket_give_empty_reply:
  "process_voice_with_auth (voice_env_with DbAbsent [] None) (request_of ''hello'' None) None
     = (Inr \<lparr>resp_transcription = str ''hello'', aiResponse = [],
             resp_sessionId = str ''s1''\<rparr>,
        [GetResponse (str ''hello'') (str ''en-US'') (str ''Amira''),
         CreateTrelloCard (str ''[AUTO-FALLBACK] Amira - guest'')
           (ticket_description 20 (str ''AI failed to respond properly.'')
              (str ''s1'') (str ''en-US'') (str ''hello''))])"
proof -
  have c: "conversation_context (voice_env_with DbAbsent [] None) (request_of ''hello'' None)
             = Inr (str ''hello'')"
    by (simp add: conversation_context_def history_to_use_def load_history_def
          build_context_def voice_env_with_def request_of_def)
  have t: "ticket_title (str ''[AUTO-FALLBACK]'') (str ''Amira'') None
             = str ''[AUTO-FALLBACK] Amira - guest''"
    by (simp add: ticket_title_def str_def)
  have s: "session_id_of (voice_env_with DbAbsent [] None) (request_of ''hello'' None)
             = str ''s1''"
    by (simp add: session_id_of_def request_of_def str_def)
  have f: "transcription (request_of ''hello'' None) = str ''hello''"
          "req_language (request_of ''hello'' None) = str ''en-US''"
          "assistant_name_of (assistantId (request_of ''hello'' None)) = str ''Amira''"
          "str_lower (voice_env_with DbAbsent [] None) = ascii_lower"
          "get_response (voice_env_with DbAbsent [] None) = (\<lambda>c l a. Inr [])"
          "create_trello_card (voice_env_with DbAbsent [] None) = (\<lambda>t d. None)"
    by (simp_all add: request_of_def assistant_name_of_def voice_env_with_def)
  show ?thesis
    by (simp add: process_voice_with_auth_def Let_def c s f t hello_has_no_trigger)
qed

text \<open>
  The sibling branch does have the \<^verbatim>\<open>else\<close>: an explicit ticket request for which
  ticketing returns \<^verbatim>\<open>None\<close> is still answered with a sentence.
\<close>

lemma manual_request_without_ticket_still_answers:
  "fst (process_voice_with_auth (voice_env_with DbAbsent [] None)
          (request_of ''open a ticket'' None) None)
     = Inr \<lparr>resp_transcription = str ''open a ticket'',
            aiResponse = str ''I'll create a support ticket for you right away.'',
            resp_sessionId = str ''s1''\<rparr>"
proof -
  have c: "conversation_context (voice_env_with DbAbsent [] None)
             (request_of ''open a ticket'' None) = Inr (str ''open a ticket'')"
    by (simp add: conversation_context_def history_to_use_def load_history_def
          build_context_def voice_env_with_def request_of_def)
  have g: "list_ex (\<lambda>phrase. substr phrase (ascii_lower (str ''open a ticket'')))
             ticket_phrases"
    by (simp add: ticket_phrases_def ascii_lower_def str_def)
  have s: "session_id_of (voice_env_with DbAbsent [] None) (request_of ''open a ticket'' None)
             = str ''s1''"
    by (simp add: session_id_of_def request_of_def str_def)
  have f: "transcription (request_of ''open a ticket'' None) = str ''open a ticket''"
          "str_lower (voice_env_with DbAbsent [] None) = ascii_lower"
          "create_trello_card (voice_env_with DbAbsent [] None) = (\<lambda>t d. None)"
    by (simp_all add: request_of_def voice_env_with_def)
  show ?thesis
    by (simp add: process_voice_with_auth_def Let_def c s f g)
qed

subsection \<open>The history window\<close>

lemma twelve_turns_selected:
  "select_history twelve_turns (str ''s1'') = take 10 twelve_turns"
  by (simp add: select_history_def twelve_turns_def row_def)

text \<open>
  \<^bold>\<open>C1: the code at the failing input.\<close>  The client sends an empty history and the
  store holds twelve turns of the session.  The query sorts by ascending timestamp
  and keeps the first ten rows, so the context is built from turns 1 to 10, in
  ascending order: the ten oldest turns, where the claim promises the ten most
  recent (3 to 12).  The two latest turns never reach the generator.
\<close>

theorem persisted_history_keeps_oldest_ten:
  "conversation_context (voice_env_with (Db twelve_turns) (str ''Sure.'') None)
     (request_of ''now'' (Some []))
   = Inr (str ''Previous conversation:'' @ [10]
          @ str ''User: m01'' @ [10] @ str ''AI: r01'' @ [10]
          @ str ''User: m02'' @ [10] @ str ''AI: r02'' @ [10]
          @ str ''User: m03'' @ [10] @ str ''AI: r03'' @ [10]
          @ str ''User: m04'' @ [10] @ str ''AI: r04'' @ [10]
          @ str ''User: m05'' @ [10] @ str ''AI: r05'' @ [10]
          @ str ''User: m06'' @ [10] @ str ''AI: r06'' @ [10]
          @ str ''User: m07'' @ [10] @ str ''AI: r07'' @ [10]
          @ str ''User: m08'' @ [10] @ str ''AI: r08'' @ [10]
          @ str ''User: m09'' @ [10] @ str ''AI: r09'' @ [10]
          @ str ''User: m10'' @ [10] @ str ''AI: r10'' @ [10]
          @ [10] @ str ''Current user message: now'' @ [10])"
proof -
  have sid: "session_id_of (voice_env_with (Db twelve_turns) (str ''Sure.'') None)
               (request_of ''now'' (Some [])) = str ''s1''"
    by (simp add: session_id_of_def request_of_def str_def)
  have h: "history_to_use (voice_env_with (Db twelve_turns) (str ''Sure.'') None)
             (request_of ''now'' (Some []))
           = map (\<lambda>row. TurnDict [(str ''user'', row_user_message row),
                                    (str ''ai'', row_ai_response row)])
               (take 10 twelve_turns)"
    unfolding history_to_use_def sid
    by (simp add: load_history_def voice_env_with_def request_of_def twelve_turns_selected)
  have m: "transcription (request_of ''now'' (Some [])) = str ''now''"
    by (simp add: request_of_def)
  show ?thesis
    unfolding conversation_context_def h m
    by (simp add: build_context_def last10_def twelve_turns_def row_def str_def)
qed

text \<open>
  The sibling path keeps the latest ten: of twelve items sent by the client, the slice
  \<^verbatim>\<open>[-10:]\<close> drops the two oldest.
\<close>

lemma client_history_keeps_latest_ten:
  "last10 (map f twelve_turns) = map f (drop 2 twelve_turns)"
  by (simp add: last10_def twelve_turns_def)

end
